theory Spec2Isabelle
  imports Complex_Main
begin

section \<open>Shared vocabulary\<close>

text \<open>
  The repository holds three services, each over a store of its own: the user service
  and the order service (Express, TypeScript) and the product service (Gin, Go).
  A handler is modelled as a function from its inputs and the store to the reply and the
  store afterwards. A reply is the HTTP status with the body.

  Every statement a handler sends to its store can be refused (the server is away, a
  parameter does not fit the column type); the handlers catch that and answer 500.
  Which statements are refused is an input of the model: \<open>fault k\<close> says that the
  \<open>k\<close>-th statement of the handler (counted from 0) is refused.

  Money is \<open>DECIMAL(10,2)\<close> in the stores, \<open>float64\<close> in Go and \<open>number\<close> in
  TypeScript; the model computes with exact rationals. Identifiers in a path are modelled
  as the integers they denote. Time is a clock reading handed to the handler
  (\<open>NOW()\<close>).
\<close>

type_synonym faults = "nat \<Rightarrow> bool"

definition no_faults :: faults where
  "no_faults = (\<lambda>k. False)"

text \<open>Decimal rendering of numbers, as string interpolation and \<open>fmt\<close> produce it.\<close>

definition digit_char :: "nat \<Rightarrow> char" where
  "digit_char d = char_of (48 + d)"

function show_nat :: "nat \<Rightarrow> string" where
  "show_nat n = (if n < 10 then [digit_char n] else show_nat (n div 10) @ [digit_char (n mod 10)])"
  by pat_completeness auto
termination
  by (relation "measure id") auto

definition show_int :: "int \<Rightarrow> string" where
  "show_int i = (if i < 0 then CHR ''-'' # show_nat (nat (- i)) else show_nat (nat i))"

section \<open>Product service (Go)\<close>

subsection \<open>Data\<close>

record Product =
  ID :: int
  Name :: string
  Description :: string
  Price :: rat
  Stock :: int
  Category :: string
  CreatedAt :: nat
  UpdatedAt :: nat

text \<open>
  The request structs as \<open>ShouldBindJSON\<close> fills them: a field the JSON body does not
  mention keeps Go's zero value (\<open>""\<close>, \<open>0\<close>).
\<close>

record CreateProductRequest =
  c_Name :: string
  c_Description :: string
  c_Price :: rat
  c_Stock :: int
  c_Category :: string

record UpdateProductRequest =
  u_Name :: string
  u_Description :: string
  u_Price :: rat
  u_Stock :: int
  u_Category :: string

text \<open>The table \<open>products\<close> with its \<open>SERIAL\<close> key and its two \<open>CHECK\<close>s.\<close>

record productdb =
  products :: "Product list"
  products_id_seq :: int

definition products_check :: "Product \<Rightarrow> bool" where
  "products_check p \<longleftrightarrow> Price p > 0 \<and> Stock p \<ge> 0"

text \<open>What \<open>QueryRow(...).Scan(...)\<close> hands back.\<close>

datatype 'a scan = ErrNoRows | ErrOther | Scanned 'a

text \<open>The bodies the handlers build with \<open>gin.H\<close>.\<close>

datatype gin_body =
    H_error string
  | H_product Product
  | H_products "Product list"
  | H_message string
  | H_message_product string Product

type_synonym gin_response = "nat \<times> gin_body"

subsection \<open>Statements\<close>

definition select_product :: "int \<Rightarrow> productdb \<Rightarrow> Product option" where
  "select_product i db = find (\<lambda>p. ID p = i) (products db)"

definition query_select_product :: "faults \<Rightarrow> int \<Rightarrow> productdb \<Rightarrow> Product scan" where
  "query_select_product fault i db =
     (if fault 0 then ErrOther
      else case select_product i db of None \<Rightarrow> ErrNoRows | Some p \<Rightarrow> Scanned p)"

definition query_insert_product ::
  "faults \<Rightarrow> nat \<Rightarrow> CreateProductRequest \<Rightarrow> productdb \<Rightarrow> Product scan \<times> productdb" where
  "query_insert_product fault now req db =
     (if fault 0 then (ErrOther, db)
      else
        let p = \<lparr> ID = products_id_seq db, Name = c_Name req, Description = c_Description req,
                  Price = c_Price req, Stock = c_Stock req, Category = c_Category req,
                  CreatedAt = now, UpdatedAt = now \<rparr>;
            db1 = db \<lparr> products_id_seq := products_id_seq db + 1 \<rparr>
        in if products_check p then (Scanned p, db1 \<lparr> products := products db1 @ [p] \<rparr>)
           else (ErrOther, db1))"

text \<open>One entry of the \<open>SET\<close> list: the column with the argument bound to it.\<close>

datatype assignment =
    Set_name string
  | Set_description string
  | Set_price rat
  | Set_stock int
  | Set_category string
  | Set_updated_at_now

fun assign :: "nat \<Rightarrow> Product \<Rightarrow> assignment \<Rightarrow> Product" where
  "assign now p (Set_name s) = p \<lparr> Name := s \<rparr>"
| "assign now p (Set_description s) = p \<lparr> Description := s \<rparr>"
| "assign now p (Set_price x) = p \<lparr> Price := x \<rparr>"
| "assign now p (Set_stock n) = p \<lparr> Stock := n \<rparr>"
| "assign now p (Set_category s) = p \<lparr> Category := s \<rparr>"
| "assign now p Set_updated_at_now = p \<lparr> UpdatedAt := now \<rparr>"

definition query_update_product ::
  "faults \<Rightarrow> nat \<Rightarrow> assignment list \<Rightarrow> int \<Rightarrow> productdb \<Rightarrow> Product scan \<times> productdb" where
  "query_update_product fault now updates i db =
     (if fault 0 then (ErrOther, db)
      else case select_product i db of
        None \<Rightarrow> (ErrNoRows, db)
      | Some p \<Rightarrow>
          let p' = foldl (assign now) p updates
          in if products_check p'
             then (Scanned p', db \<lparr> products := map (\<lambda>q. if ID q = i then p' else q) (products db) \<rparr>)
             else (ErrOther, db))"

text \<open>\<open>db.Exec\<close> of the \<open>DELETE\<close>: the error, or the number of rows affected.\<close>

definition exec_delete_product :: "faults \<Rightarrow> int \<Rightarrow> productdb \<Rightarrow> nat option \<times> productdb" where
  "exec_delete_product fault i db =
     (if fault 0 then (None, db)
      else (Some (length (filter (\<lambda>p. ID p = i) (products db))),
            db \<lparr> products := filter (\<lambda>p. ID p \<noteq> i) (products db) \<rparr>))"

subsection \<open>Binding\<close>

text \<open>
  The \<open>binding\<close> tags of \<open>CreateProductRequest\<close>, checked by the validator after
  decoding, field by field and tag by tag; \<open>required\<close> fails on the zero value of the
  field's type. A field reports its first failing tag.
\<close>

definition quoted :: "string \<Rightarrow> string" where
  "quoted s = [CHR 0x27] @ s @ [CHR 0x27]"

definition field_error :: "string \<Rightarrow> string \<Rightarrow> string" where
  "field_error field tag =
     ''Key: '' @ quoted (''CreateProductRequest.'' @ field) @
     '' Error:Field validation for '' @ quoted field @
     '' failed on the '' @ quoted tag @ '' tag''"

definition validate_CreateProductRequest :: "CreateProductRequest \<Rightarrow> string list" where
  "validate_CreateProductRequest req =
     (if c_Name req = [] then [field_error ''Name'' ''required''] else []) @
     (if c_Description req = [] then [field_error ''Description'' ''required''] else []) @
     (if c_Price req = 0 then [field_error ''Price'' ''required'']
      else if \<not> c_Price req > 0 then [field_error ''Price'' ''gt''] else []) @
     (if c_Stock req = 0 then [field_error ''Stock'' ''required'']
      else if \<not> c_Stock req \<ge> 0 then [field_error ''Stock'' ''gte''] else []) @
     (if c_Category req = [] then [field_error ''Category'' ''required''] else [])"

fun join_lines :: "string list \<Rightarrow> string" where
  "join_lines [] = []"
| "join_lines [l] = l"
| "join_lines (l # ls) = l @ [CHR 0x0A] @ join_lines ls"

text \<open>
  \<open>ShouldBindJSON\<close>: the decoder's verdict on the body is an input (\<open>Inl\<close> its error
  text, \<open>Inr\<close> the struct it filled); the tags are then checked on the struct.
\<close>

definition ShouldBindJSON_create :: "string + CreateProductRequest \<Rightarrow> string + CreateProductRequest" where
  "ShouldBindJSON_create decoded =
     (case decoded of
        Inl err \<Rightarrow> Inl err
      | Inr req \<Rightarrow>
          (case validate_CreateProductRequest req of
             [] \<Rightarrow> Inr req
           | e # es \<Rightarrow> Inl (join_lines (e # es))))"

text \<open>\<open>UpdateProductRequest\<close> carries no \<open>binding\<close> tag: decoding is all.\<close>

definition ShouldBindJSON_update :: "string + UpdateProductRequest \<Rightarrow> string + UpdateProductRequest" where
  "ShouldBindJSON_update decoded = decoded"

subsection \<open>Handlers\<close>

definition getProduct :: "faults \<Rightarrow> int \<Rightarrow> productdb \<Rightarrow> gin_response \<times> productdb" where
  "getProduct fault i db =
     (case query_select_product fault i db of
        ErrNoRows \<Rightarrow> ((404, H_error ''Product not found''), db)
      | ErrOther \<Rightarrow> ((500, H_error ''Failed to fetch product''), db)
      | Scanned product \<Rightarrow> ((200, H_product product), db))"

definition createProduct ::
  "faults \<Rightarrow> nat \<Rightarrow> string + CreateProductRequest \<Rightarrow> productdb \<Rightarrow> gin_response \<times> productdb" where
  "createProduct fault now decoded db =
     (case ShouldBindJSON_create decoded of
        Inl err \<Rightarrow> ((400, H_error err), db)
      | Inr req \<Rightarrow>
          (case query_insert_product fault now req db of
             (Scanned product, db') \<Rightarrow> ((201, H_message_product ''Product created successfully'' product), db')
           | (_, db') \<Rightarrow> ((500, H_error ''Failed to create product''), db')))"

text \<open>The \<open>SET\<close> list of \<open>updateProduct\<close>, one test per field, in the source's order.\<close>

definition build_updates :: "UpdateProductRequest \<Rightarrow> assignment list" where
  "build_updates req =
     (if u_Name req \<noteq> [] then [Set_name (u_Name req)] else []) @
     (if u_Description req \<noteq> [] then [Set_description (u_Description req)] else []) @
     (if u_Price req > 0 then [Set_price (u_Price req)] else []) @
     (if u_Stock req \<ge> 0 then [Set_stock (u_Stock req)] else []) @
     (if u_Category req \<noteq> [] then [Set_category (u_Category req)] else [])"

definition updateProduct ::
  "faults \<Rightarrow> nat \<Rightarrow> int \<Rightarrow> string + UpdateProductRequest \<Rightarrow> productdb \<Rightarrow> gin_response \<times> productdb" where
  "updateProduct fault now i decoded db =
     (case ShouldBindJSON_update decoded of
        Inl err \<Rightarrow> ((400, H_error err), db)
      | Inr req \<Rightarrow>
          let updates = build_updates req
          in if length updates = 0 then ((400, H_error ''No fields to update''), db)
             else
               (case query_update_product fault now (updates @ [Set_updated_at_now]) i db of
                  (ErrNoRows, db') \<Rightarrow> ((404, H_error ''Product not found''), db')
                | (ErrOther, db') \<Rightarrow> ((500, H_error ''Failed to update product''), db')
                | (Scanned product, db') \<Rightarrow>
                    ((200, H_message_product ''Product updated successfully'' product), db')))"

definition deleteProduct :: "faults \<Rightarrow> int \<Rightarrow> productdb \<Rightarrow> gin_response \<times> productdb" where
  "deleteProduct fault i db =
     (case exec_delete_product fault i db of
        (None, db') \<Rightarrow> ((500, H_error ''Failed to delete product''), db')
      | (Some rowsAffected, db') \<Rightarrow>
          if rowsAffected = 0 then ((404, H_error ''Product not found''), db')
          else ((200, H_message ''Product deleted successfully''), db'))"

section \<open>JSON and Joi (TypeScript services)\<close>

text \<open>
  A JSON value as \<open>express.json()\<close> parses it and \<open>res.json\<close> sends it. \<open>JDate\<close> is a
  timestamp column as the driver returns it (a \<open>Date\<close>, sent as its ISO text) and
  \<open>JNumeric\<close> a \<open>DECIMAL\<close> column (returned and sent as its decimal text). The keys
  of a parsed object are distinct. A body that does not parse reaches no handler.
\<close>

datatype json =
    JNull
  | JBool bool
  | JNum rat
  | JStr string
  | JDate nat
  | JNumeric rat
  | JArr "json list"
  | JObj "(string \<times> json) list"

type_synonym response = "nat \<times> json"

definition jget :: "string \<Rightarrow> json \<Rightarrow> json option" where
  "jget k j = (case j of JObj kvs \<Rightarrow> map_of kvs k | _ \<Rightarrow> None)"

text \<open>Whether a field named \<open>k\<close> occurs in a value, at any depth.\<close>

fun has_field :: "string \<Rightarrow> json \<Rightarrow> bool" where
  "has_field k (JArr xs) = (\<exists>x \<in> set xs. has_field k x)"
| "has_field k (JObj kvs) = (\<exists>kv \<in> set kvs. fst kv = k \<or> has_field k (snd kv))"
| "has_field k _ = False"

text \<open>JavaScript's truthiness of a property that may be absent.\<close>

fun truthy :: "json option \<Rightarrow> bool" where
  "truthy None = False"
| "truthy (Some JNull) = False"
| "truthy (Some (JBool b)) = b"
| "truthy (Some (JNum x)) = (x \<noteq> 0)"
| "truthy (Some (JStr s)) = (s \<noteq> [])"
| "truthy (Some _) = True"

text \<open>
  The first failure Joi reports for a value against a schema (\<open>abortEarly\<close>), with the
  label of the offending key, and the text of \<open>error.details[0].message\<close>.
\<close>

datatype joi_error =
    Object_base string
  | Object_unknown string
  | Any_required string
  | Any_only string "string list"
  | String_base string
  | String_empty string
  | String_email string
  | String_min string nat
  | Number_base string
  | Number_unsafe string
  | Number_integer string
  | Number_positive string
  | Array_base string
  | Array_min string nat

definition dquoted :: "string \<Rightarrow> string" where
  "dquoted s = [CHR 0x22] @ s @ [CHR 0x22]"

fun join_comma :: "string list \<Rightarrow> string" where
  "join_comma [] = []"
| "join_comma [l] = l"
| "join_comma (l # ls) = l @ '', '' @ join_comma ls"

fun joi_message :: "joi_error \<Rightarrow> string" where
  "joi_message (Object_base l) = dquoted l @ '' must be of type object''"
| "joi_message (Object_unknown l) = dquoted l @ '' is not allowed''"
| "joi_message (Any_required l) = dquoted l @ '' is required''"
| "joi_message (Any_only l vs) = dquoted l @ '' must be one of ['' @ join_comma vs @ '']''"
| "joi_message (String_base l) = dquoted l @ '' must be a string''"
| "joi_message (String_empty l) = dquoted l @ '' is not allowed to be empty''"
| "joi_message (String_email l) = dquoted l @ '' must be a valid email''"
| "joi_message (String_min l n) =
     dquoted l @ '' length must be at least '' @ show_nat n @ '' characters long''"
| "joi_message (Number_base l) = dquoted l @ '' must be a number''"
| "joi_message (Number_unsafe l) = dquoted l @ '' must be a safe number''"
| "joi_message (Number_integer l) = dquoted l @ '' must be an integer''"
| "joi_message (Number_positive l) = dquoted l @ '' must be a positive number''"
| "joi_message (Array_base l) = dquoted l @ '' must be an array''"
| "joi_message (Array_min l n) =
     dquoted l @ '' must contain at least '' @ show_nat n @ '' items''"

text \<open>\<open>Joi.string().required()\<close> with further rules \<open>rules\<close> on the string.\<close>

definition joi_string_required ::
  "string \<Rightarrow> (string \<Rightarrow> joi_error option) \<Rightarrow> json option \<Rightarrow> joi_error + string" where
  "joi_string_required label rules v =
     (case v of
        None \<Rightarrow> Inl (Any_required label)
      | Some (JStr s) \<Rightarrow>
          if s = [] then Inl (String_empty label)
          else (case rules s of Some e \<Rightarrow> Inl e | None \<Rightarrow> Inr s)
      | Some _ \<Rightarrow> Inl (String_base label))"

text \<open>
  \<open>Joi.number().integer().positive().required()\<close>; a number beyond
  \<open>Number.MAX_SAFE_INTEGER\<close> is refused first. \<open>JNum x\<close> stands for every value Joi
  takes for the number \<open>x\<close> (a string that it converts included).
\<close>

definition joi_positive_integer_required :: "string \<Rightarrow> json option \<Rightarrow> joi_error + int" where
  "joi_positive_integer_required label v =
     (case v of
        None \<Rightarrow> Inl (Any_required label)
      | Some (JNum x) \<Rightarrow>
          if \<bar>x\<bar> > 9007199254740991 then Inl (Number_unsafe label)
          else if x \<noteq> of_int \<lfloor>x\<rfloor> then Inl (Number_integer label)
          else if \<not> x > 0 then Inl (Number_positive label)
          else Inr \<lfloor>x\<rfloor>
      | Some _ \<Rightarrow> Inl (Number_base label))"

text \<open>The first key of an object that the schema does not know.\<close>

definition joi_unknown_key ::
  "string \<Rightarrow> string list \<Rightarrow> (string \<times> json) list \<Rightarrow> joi_error option" where
  "joi_unknown_key prefix known kvs =
     (case filter (\<lambda>k. k \<notin> set known) (map fst kvs) of
        [] \<Rightarrow> None
      | k # _ \<Rightarrow> Some (Object_unknown (prefix @ k)))"

section \<open>User service (TypeScript)\<close>

subsection \<open>Data\<close>

record user_row =
  user_id :: int
  user_email :: string
  user_password :: string
  user_name :: string
  user_created_at :: nat
  user_updated_at :: nat

record userdb =
  users :: "user_row list"
  users_id_seq :: int

text \<open>
  The libraries the handlers call, as inputs of the model: Joi's e-mail rule,
  \<open>bcrypt.hash\<close> and \<open>bcrypt.compare\<close>, \<open>jwt.sign\<close> on the payload
  \<open>{userId, email}\<close>, and the text the driver sends for a parameter that is not a
  string.
\<close>

record lib =
  joi_email :: "string \<Rightarrow> bool"
  bcrypt_hash :: "string \<Rightarrow> string"
  bcrypt_compare :: "string \<Rightarrow> string \<Rightarrow> bool"
  jwt_sign :: "int \<Rightarrow> string \<Rightarrow> string"
  pg_prepare :: "json \<Rightarrow> string"

text \<open>What \<open>pool.query\<close> resolves to, or its rejection.\<close>

datatype 'a query = Query_error | Rows "'a list"

subsection \<open>Schemas\<close>

record user_value =
  v_email :: string
  v_password :: string
  v_name :: string

definition userSchema_validate :: "lib \<Rightarrow> json \<Rightarrow> joi_error + user_value" where
  "userSchema_validate l body =
     (case body of
        JObj kvs \<Rightarrow>
          (case joi_string_required ''email''
                  (\<lambda>s. if joi_email l s then None else Some (String_email ''email''))
                  (map_of kvs ''email'') of
             Inl e \<Rightarrow> Inl e
           | Inr email \<Rightarrow>
          (case joi_string_required ''password''
                  (\<lambda>s. if length s < 6 then Some (String_min ''password'' 6) else None)
                  (map_of kvs ''password'') of
             Inl e \<Rightarrow> Inl e
           | Inr password \<Rightarrow>
          (case joi_string_required ''name''
                  (\<lambda>s. if length s < 2 then Some (String_min ''name'' 2) else None)
                  (map_of kvs ''name'') of
             Inl e \<Rightarrow> Inl e
           | Inr name \<Rightarrow>
          (case joi_unknown_key [] [''email'', ''password'', ''name''] kvs of
             Some e \<Rightarrow> Inl e
           | None \<Rightarrow> Inr \<lparr> v_email = email, v_password = password, v_name = name \<rparr>))))
      | _ \<Rightarrow> Inl (Object_base ''value''))"

definition loginSchema_validate :: "lib \<Rightarrow> json \<Rightarrow> joi_error + string \<times> string" where
  "loginSchema_validate l body =
     (case body of
        JObj kvs \<Rightarrow>
          (case joi_string_required ''email''
                  (\<lambda>s. if joi_email l s then None else Some (String_email ''email''))
                  (map_of kvs ''email'') of
             Inl e \<Rightarrow> Inl e
           | Inr email \<Rightarrow>
          (case joi_string_required ''password'' (\<lambda>s. None) (map_of kvs ''password'') of
             Inl e \<Rightarrow> Inl e
           | Inr password \<Rightarrow>
          (case joi_unknown_key [] [''email'', ''password''] kvs of
             Some e \<Rightarrow> Inl e
           | None \<Rightarrow> Inr (email, password))))
      | _ \<Rightarrow> Inl (Object_base ''value''))"

subsection \<open>Statements\<close>

definition query_users_by_email :: "faults \<Rightarrow> nat \<Rightarrow> string \<Rightarrow> userdb \<Rightarrow> user_row query" where
  "query_users_by_email fault k email db =
     (if fault k then Query_error else Rows (filter (\<lambda>u. user_email u = email) (users db)))"

definition query_users_by_id :: "faults \<Rightarrow> nat \<Rightarrow> int \<Rightarrow> userdb \<Rightarrow> user_row query" where
  "query_users_by_id fault k i db =
     (if fault k then Query_error else Rows (filter (\<lambda>u. user_id u = i) (users db)))"

text \<open>\<open>ORDER BY created_at DESC\<close>.\<close>

definition query_users_all :: "faults \<Rightarrow> nat \<Rightarrow> userdb \<Rightarrow> user_row query" where
  "query_users_all fault k db =
     (if fault k then Query_error else Rows (rev (sort_key user_created_at (users db))))"

text \<open>The \<open>INSERT\<close> of registration; \<open>email\<close> is \<open>UNIQUE\<close>.\<close>

definition query_insert_user ::
  "faults \<Rightarrow> nat \<Rightarrow> nat \<Rightarrow> string \<Rightarrow> string \<Rightarrow> string \<Rightarrow> userdb \<Rightarrow> user_row query \<times> userdb" where
  "query_insert_user fault k now email password name db =
     (if fault k then (Query_error, db)
      else
        let u = \<lparr> user_id = users_id_seq db, user_email = email, user_password = password,
                  user_name = name, user_created_at = now, user_updated_at = now \<rparr>;
            db1 = db \<lparr> users_id_seq := users_id_seq db + 1 \<rparr>
        in if \<exists>w \<in> set (users db). user_email w = email then (Query_error, db1)
           else (Rows [u], db1 \<lparr> users := users db1 @ [u] \<rparr>))"

text \<open>The \<open>UPDATE\<close> built by the update handler: the columns present, then \<open>updated_at\<close>.\<close>

definition query_update_user ::
  "faults \<Rightarrow> nat \<Rightarrow> nat \<Rightarrow> string option \<Rightarrow> string option \<Rightarrow> int \<Rightarrow> userdb
     \<Rightarrow> user_row query \<times> userdb" where
  "query_update_user fault k now name email i db =
     (if fault k then (Query_error, db)
      else
        let upd = (\<lambda>u. u \<lparr> user_name := (case name of Some n \<Rightarrow> n | None \<Rightarrow> user_name u),
                            user_email := (case email of Some e \<Rightarrow> e | None \<Rightarrow> user_email u),
                            user_updated_at := now \<rparr>);
            hit = filter (\<lambda>u. user_id u = i) (users db);
            clash = (case email of
                       None \<Rightarrow> False
                     | Some e \<Rightarrow> \<exists>w \<in> set (users db). user_id w \<noteq> i \<and> user_email w = e)
        in if hit \<noteq> [] \<and> clash then (Query_error, db)
           else (Rows (map upd hit),
                 db \<lparr> users := map (\<lambda>u. if user_id u = i then upd u else u) (users db) \<rparr>))"

definition query_delete_user :: "faults \<Rightarrow> nat \<Rightarrow> int \<Rightarrow> userdb \<Rightarrow> user_row query \<times> userdb" where
  "query_delete_user fault k i db =
     (if fault k then (Query_error, db)
      else (Rows (filter (\<lambda>u. user_id u = i) (users db)),
            db \<lparr> users := filter (\<lambda>u. user_id u \<noteq> i) (users db) \<rparr>))"

subsection \<open>Handlers\<close>

definition error_body :: "string \<Rightarrow> json" where
  "error_body m = JObj [(''error'', JStr m)]"

text \<open>The \<open>catch\<close> of every Express handler.\<close>

definition internal_server_error :: response where
  "internal_server_error = (500, error_body ''Internal server error'')"

text \<open>\<open>POST /api/users/register\<close>\<close>

definition register_user :: "lib \<Rightarrow> faults \<Rightarrow> nat \<Rightarrow> json \<Rightarrow> userdb \<Rightarrow> response \<times> userdb" where
  "register_user l fault now body db =
     (case userSchema_validate l body of
        Inl e \<Rightarrow> ((400, error_body (joi_message e)), db)
      | Inr v \<Rightarrow>
          (case query_users_by_email fault 0 (v_email v) db of
             Query_error \<Rightarrow> (internal_server_error, db)
           | Rows existingUser \<Rightarrow>
               if length existingUser > 0 then ((409, error_body ''User already exists''), db)
               else
                 let hashedPassword = bcrypt_hash l (v_password v)
                 in (case query_insert_user fault 1 now (v_email v) hashedPassword (v_name v) db of
                       (Rows (user # _), db') \<Rightarrow>
                         ((201, JObj [(''message'', JStr ''User created successfully''),
                                      (''user'', JObj [(''id'', JNum (of_int (user_id user))),
                                                       (''email'', JStr (user_email user)),
                                                       (''name'', JStr (user_name user)),
                                                       (''createdAt'', JDate (user_created_at user))])]),
                          db')
                     | (_, db') \<Rightarrow> (internal_server_error, db'))))"

text \<open>\<open>POST /api/users/login\<close>\<close>

definition login_user :: "lib \<Rightarrow> faults \<Rightarrow> json \<Rightarrow> userdb \<Rightarrow> response \<times> userdb" where
  "login_user l fault body db =
     (case loginSchema_validate l body of
        Inl e \<Rightarrow> ((400, error_body (joi_message e)), db)
      | Inr (email, password) \<Rightarrow>
          (case query_users_by_email fault 0 email db of
             Query_error \<Rightarrow> (internal_server_error, db)
           | Rows [] \<Rightarrow> ((401, error_body ''Invalid credentials''), db)
           | Rows (user # _) \<Rightarrow>
               if \<not> bcrypt_compare l password (user_password user)
               then ((401, error_body ''Invalid credentials''), db)
               else
                 let token = jwt_sign l (user_id user) (user_email user)
                 in ((200, JObj [(''message'', JStr ''Login successful''),
                                 (''token'', JStr token),
                                 (''user'', JObj [(''id'', JNum (of_int (user_id user))),
                                                  (''email'', JStr (user_email user)),
                                                  (''name'', JStr (user_name user))])]),
                     db)))"

text \<open>\<open>GET /api/users\<close>\<close>

definition get_users :: "faults \<Rightarrow> userdb \<Rightarrow> response \<times> userdb" where
  "get_users fault db =
     (case query_users_all fault 0 db of
        Query_error \<Rightarrow> (internal_server_error, db)
      | Rows rows \<Rightarrow>
          ((200, JObj [(''users'',
                    JArr (map (\<lambda>user. JObj [(''id'', JNum (of_int (user_id user))),
                                              (''email'', JStr (user_email user)),
                                              (''name'', JStr (user_name user)),
                                              (''createdAt'', JDate (user_created_at user))])
                              rows))]),
           db))"

text \<open>\<open>GET /api/users/:id\<close>\<close>

definition get_user :: "faults \<Rightarrow> int \<Rightarrow> userdb \<Rightarrow> response \<times> userdb" where
  "get_user fault i db =
     (case query_users_by_id fault 0 i db of
        Query_error \<Rightarrow> (internal_server_error, db)
      | Rows [] \<Rightarrow> ((404, error_body ''User not found''), db)
      | Rows (user # _) \<Rightarrow>
          ((200, JObj [(''user'', JObj [(''id'', JNum (of_int (user_id user))),
                                        (''email'', JStr (user_email user)),
                                        (''name'', JStr (user_name user)),
                                        (''createdAt'', JDate (user_created_at user))])]),
           db))"

text \<open>
  \<open>PUT /api/users/:id\<close>. The body is not validated: \<open>name\<close> and \<open>email\<close> are used when
  truthy, and bound to the statement as the driver renders them.
\<close>

definition param_text :: "lib \<Rightarrow> json \<Rightarrow> string" where
  "param_text l v = (case v of JStr s \<Rightarrow> s | _ \<Rightarrow> pg_prepare l v)"

definition if_truthy :: "lib \<Rightarrow> json option \<Rightarrow> string option" where
  "if_truthy l v = (if truthy v then map_option (param_text l) v else None)"

definition update_user :: "lib \<Rightarrow> faults \<Rightarrow> nat \<Rightarrow> int \<Rightarrow> json \<Rightarrow> userdb \<Rightarrow> response \<times> userdb" where
  "update_user l fault now i body db =
     (let name = jget ''name'' body; email = jget ''email'' body
      in if \<not> truthy name \<and> \<not> truthy email
         then ((400, error_body ''Name or email is required''), db)
         else
           (case query_update_user fault 0 now (if_truthy l name) (if_truthy l email) i db of
              (Query_error, db') \<Rightarrow> (internal_server_error, db')
            | (Rows [], db') \<Rightarrow> ((404, error_body ''User not found''), db')
            | (Rows (user # _), db') \<Rightarrow>
                ((200, JObj [(''message'', JStr ''User updated successfully''),
                             (''user'', JObj [(''id'', JNum (of_int (user_id user))),
                                              (''email'', JStr (user_email user)),
                                              (''name'', JStr (user_name user)),
                                              (''updatedAt'', JDate (user_updated_at user))])]),
                 db')))"

text \<open>\<open>DELETE /api/users/:id\<close>\<close>

definition delete_user :: "faults \<Rightarrow> int \<Rightarrow> userdb \<Rightarrow> response \<times> userdb" where
  "delete_user fault i db =
     (case query_delete_user fault 0 i db of
        (Query_error, db') \<Rightarrow> (internal_server_error, db')
      | (Rows [], db') \<Rightarrow> ((404, error_body ''User not found''), db')
      | (Rows (_ # _), db') \<Rightarrow> ((200, JObj [(''message'', JStr ''User deleted successfully'')]), db'))"

section \<open>Order service (TypeScript)\<close>

subsection \<open>Data\<close>

record order_row =
  order_id :: int
  order_user_id :: int
  order_total_amount :: rat
  order_status :: string
  order_created_at :: nat
  order_updated_at :: nat

record item_row =
  item_id :: int
  item_order_id :: int
  item_product_id :: int
  item_quantity :: int
  item_price :: rat
  item_product_name :: string
  item_created_at :: nat

record orderdb =
  orders :: "order_row list"
  order_items :: "item_row list"
  orders_id_seq :: int
  order_items_id_seq :: int

definition order_statuses :: "string list" where
  "order_statuses = [''pending'', ''confirmed'', ''shipped'', ''delivered'', ''cancelled'']"

definition orders_check :: "order_row \<Rightarrow> bool" where
  "orders_check r \<longleftrightarrow> order_total_amount r > 0 \<and> order_status r \<in> set order_statuses"

definition order_items_check :: "item_row \<Rightarrow> bool" where
  "order_items_check r \<longleftrightarrow> item_quantity r > 0 \<and> item_price r > 0"

text \<open>The three stores side by side: the order service reaches the other two over HTTP.\<close>

record world =
  user_store :: userdb
  product_store :: productdb
  order_store :: orderdb

text \<open>
  What the surroundings do to one request of the order service: the clock; whether the
  \<open>k\<close>-th outbound call of the request gets no answer; which statements the called
  service's store refuses while it serves that call; whether \<open>pool.connect()\<close> is
  rejected; which statements the order store refuses.
\<close>

record env =
  clock :: nat
  net_fault :: "nat \<Rightarrow> bool"
  peer_fault :: "nat \<Rightarrow> faults"
  connect_fault :: bool
  store_fault :: faults

text \<open>
  \<open>axios.get\<close> resolves with the body on a 2xx status and rejects otherwise, with the
  status of the answer if there was one.
\<close>

datatype 'a axios = Resolved 'a | Rejected "nat option"

definition axios_settle :: "nat \<times> 'a \<Rightarrow> 'a axios" where
  "axios_settle r = (if 200 \<le> fst r \<and> fst r < 300 then Resolved (snd r) else Rejected (Some (fst r)))"

definition axios_get_user :: "env \<Rightarrow> nat \<Rightarrow> int \<Rightarrow> userdb \<Rightarrow> json axios \<times> userdb" where
  "axios_get_user e k i db =
     (if net_fault e k then (Rejected None, db)
      else case get_user (peer_fault e k) i db of (r, db') \<Rightarrow> (axios_settle r, db'))"

definition axios_get_product :: "env \<Rightarrow> nat \<Rightarrow> int \<Rightarrow> productdb \<Rightarrow> gin_body axios \<times> productdb" where
  "axios_get_product e k i db =
     (if net_fault e k then (Rejected None, db)
      else case getProduct (peer_fault e k) i db of (r, db') \<Rightarrow> (axios_settle r, db'))"

text \<open>What a run of the create handler does, in order.\<close>

datatype statement = BEGIN | INSERT_order | INSERT_item | COMMIT | ROLLBACK

datatype event =
    Http_get_user int
  | Http_get_product int
  | Pool_connect
  | Client_query statement
  | Client_release

fun is_http :: "event \<Rightarrow> bool" where
  "is_http (Http_get_user _) = True"
| "is_http (Http_get_product _) = True"
| "is_http _ = False"

subsection \<open>Schemas\<close>

record order_item =
  productId :: int
  quantity :: int

record order_value =
  userId :: int
  items :: "order_item list"

definition item_label :: "nat \<Rightarrow> string" where
  "item_label n = ''items['' @ show_nat n @ '']''"

definition validate_item :: "nat \<Rightarrow> json \<Rightarrow> joi_error + order_item" where
  "validate_item n j =
     (case j of
        JObj kvs \<Rightarrow>
          (case joi_positive_integer_required (item_label n @ ''.productId'') (map_of kvs ''productId'') of
             Inl e \<Rightarrow> Inl e
           | Inr p \<Rightarrow>
          (case joi_positive_integer_required (item_label n @ ''.quantity'') (map_of kvs ''quantity'') of
             Inl e \<Rightarrow> Inl e
           | Inr q \<Rightarrow>
          (case joi_unknown_key (item_label n @ ''.'') [''productId'', ''quantity''] kvs of
             Some e \<Rightarrow> Inl e
           | None \<Rightarrow> Inr \<lparr> productId = p, quantity = q \<rparr>)))
      | _ \<Rightarrow> Inl (Object_base (item_label n)))"

fun validate_items :: "nat \<Rightarrow> json list \<Rightarrow> joi_error + order_item list" where
  "validate_items n [] = Inr []"
| "validate_items n (j # js) =
     (case validate_item n j of
        Inl e \<Rightarrow> Inl e
      | Inr item \<Rightarrow>
          (case validate_items (Suc n) js of
             Inl e \<Rightarrow> Inl e
           | Inr rest \<Rightarrow> Inr (item # rest)))"

definition orderSchema_validate :: "json \<Rightarrow> joi_error + order_value" where
  "orderSchema_validate body =
     (case body of
        JObj kvs \<Rightarrow>
          (case joi_positive_integer_required ''userId'' (map_of kvs ''userId'') of
             Inl e \<Rightarrow> Inl e
           | Inr u \<Rightarrow>
          (case (case map_of kvs ''items'' of
                   None \<Rightarrow> Inl (Any_required ''items'')
                 | Some (JArr js) \<Rightarrow>
                     (case validate_items 0 js of
                        Inl e \<Rightarrow> Inl e
                      | Inr its \<Rightarrow> if length its < 1 then Inl (Array_min ''items'' 1) else Inr its)
                 | Some _ \<Rightarrow> Inl (Array_base ''items'')) of
             Inl e \<Rightarrow> Inl e
           | Inr its \<Rightarrow>
          (case joi_unknown_key [] [''userId'', ''items''] kvs of
             Some e \<Rightarrow> Inl e
           | None \<Rightarrow> Inr \<lparr> userId = u, items = its \<rparr>)))
      | _ \<Rightarrow> Inl (Object_base ''value''))"

text \<open>
  \<open>Joi.string().valid(...).required()\<close>: a value that is none of the listed ones is
  refused as such, whatever its type.
\<close>

definition updateOrderSchema_validate :: "json \<Rightarrow> joi_error + string" where
  "updateOrderSchema_validate body =
     (case body of
        JObj kvs \<Rightarrow>
          (case (case map_of kvs ''status'' of
                   None \<Rightarrow> Inl (Any_required ''status'')
                 | Some (JStr s) \<Rightarrow>
                     if s \<in> set order_statuses then Inr s
                     else Inl (Any_only ''status'' order_statuses)
                 | Some _ \<Rightarrow> Inl (Any_only ''status'' order_statuses)) of
             Inl e \<Rightarrow> Inl e
           | Inr st \<Rightarrow>
          (case joi_unknown_key [] [''status''] kvs of
             Some e \<Rightarrow> Inl e
           | None \<Rightarrow> Inr st))
      | _ \<Rightarrow> Inl (Object_base ''value''))"

subsection \<open>Statements\<close>

definition query_insert_order ::
  "faults \<Rightarrow> nat \<Rightarrow> nat \<Rightarrow> int \<Rightarrow> rat \<Rightarrow> string \<Rightarrow> orderdb \<Rightarrow> order_row query \<times> orderdb" where
  "query_insert_order fault k now uid totalAmount st db =
     (if fault k then (Query_error, db)
      else
        let r = \<lparr> order_id = orders_id_seq db, order_user_id = uid, order_total_amount = totalAmount,
                  order_status = st, order_created_at = now, order_updated_at = now \<rparr>;
            db1 = db \<lparr> orders_id_seq := orders_id_seq db + 1 \<rparr>
        in if orders_check r then (Rows [r], db1 \<lparr> orders := orders db1 @ [r] \<rparr>)
           else (Query_error, db1))"

text \<open>\<open>order_id\<close> references \<open>orders(id)\<close>.\<close>

definition query_insert_item ::
  "faults \<Rightarrow> nat \<Rightarrow> nat \<Rightarrow> int \<Rightarrow> int \<Rightarrow> int \<Rightarrow> rat \<Rightarrow> string \<Rightarrow> orderdb
     \<Rightarrow> item_row query \<times> orderdb" where
  "query_insert_item fault k now oid pid qty pr nm db =
     (if fault k then (Query_error, db)
      else
        let r = \<lparr> item_id = order_items_id_seq db, item_order_id = oid, item_product_id = pid,
                  item_quantity = qty, item_price = pr, item_product_name = nm,
                  item_created_at = now \<rparr>;
            db1 = db \<lparr> order_items_id_seq := order_items_id_seq db + 1 \<rparr>
        in if order_items_check r \<and> (\<exists>r' \<in> set (orders db). order_id r' = oid)
           then (Rows [r], db1 \<lparr> order_items := order_items db1 @ [r] \<rparr>)
           else (Query_error, db1))"

definition query_orders_all :: "faults \<Rightarrow> nat \<Rightarrow> orderdb \<Rightarrow> order_row query" where
  "query_orders_all fault k db =
     (if fault k then Query_error else Rows (rev (sort_key order_created_at (orders db))))"

definition query_orders_by_id :: "faults \<Rightarrow> nat \<Rightarrow> int \<Rightarrow> orderdb \<Rightarrow> order_row query" where
  "query_orders_by_id fault k i db =
     (if fault k then Query_error else Rows (filter (\<lambda>r. order_id r = i) (orders db)))"

definition query_orders_by_user :: "faults \<Rightarrow> nat \<Rightarrow> int \<Rightarrow> orderdb \<Rightarrow> order_row query" where
  "query_orders_by_user fault k u db =
     (if fault k then Query_error
      else Rows (rev (sort_key order_created_at (filter (\<lambda>r. order_user_id r = u) (orders db)))))"

definition query_items_by_order :: "faults \<Rightarrow> nat \<Rightarrow> int \<Rightarrow> orderdb \<Rightarrow> item_row query" where
  "query_items_by_order fault k i db =
     (if fault k then Query_error else Rows (filter (\<lambda>r. item_order_id r = i) (order_items db)))"

definition query_update_order_status ::
  "faults \<Rightarrow> nat \<Rightarrow> nat \<Rightarrow> string \<Rightarrow> int \<Rightarrow> orderdb \<Rightarrow> order_row query \<times> orderdb" where
  "query_update_order_status fault k now st i db =
     (if fault k then (Query_error, db)
      else
        let upd = (\<lambda>r. r \<lparr> order_status := st, order_updated_at := now \<rparr>);
            hit = filter (\<lambda>r. order_id r = i) (orders db)
        in if \<exists>r \<in> set hit. \<not> orders_check (upd r) then (Query_error, db)
           else (Rows (map upd hit),
                 db \<lparr> orders := map (\<lambda>r. if order_id r = i then upd r else r) (orders db) \<rparr>))"

subsection \<open>Creating an order\<close>

record product_detail =
  d_price :: rat
  d_name :: string
  d_stock :: int

definition insufficient_stock :: "Product \<Rightarrow> order_item \<Rightarrow> string" where
  "insufficient_stock product item =
     ''Insufficient stock for product '' @ Name product @ ''. Available: '' @
     show_int (Stock product) @ '', Requested: '' @ show_int (quantity item)"

definition product_not_found :: "order_item \<Rightarrow> string" where
  "product_not_found item = ''Product with ID '' @ show_int (productId item) @ '' not found''"

text \<open>
  The loop over the items that fills \<open>productDetails\<close>: one lookup per item, the
  \<open>k\<close>-th outbound call of the request. \<open>Inl\<close> is the reply that ends the request
  (a \<open>return\<close>, or a rethrown error that the outer \<open>catch\<close> answers).
\<close>

fun verify_products ::
  "env \<Rightarrow> nat \<Rightarrow> order_item list \<Rightarrow> (int \<rightharpoonup> product_detail) \<Rightarrow> productdb
     \<Rightarrow> (response + (int \<rightharpoonup> product_detail)) \<times> productdb \<times> event list" where
  "verify_products e k [] productDetails db = (Inr productDetails, db, [])"
| "verify_products e k (item # rest) productDetails db =
     (case axios_get_product e k (productId item) db of
        (Rejected st, db') \<Rightarrow>
          (Inl (if st = Some 404 then (400, error_body (product_not_found item))
                else internal_server_error),
           db', [Http_get_product (productId item)])
      | (Resolved (H_product product), db') \<Rightarrow>
          if Stock product < quantity item
          then (Inl (400, error_body (insufficient_stock product item)),
                db', [Http_get_product (productId item)])
          else
            (case verify_products e (Suc k) rest
                    (productDetails(productId item \<mapsto>
                       \<lparr> d_price = Price product, d_name = Name product, d_stock = Stock product \<rparr>))
                    db' of
               (r, db'', evs) \<Rightarrow> (r, db'', Http_get_product (productId item) # evs))
      | (Resolved _, db') \<Rightarrow>
          (Inl internal_server_error, db', [Http_get_product (productId item)]))"

text \<open>
  \<open>items.reduce(...)\<close>; reading a product that \<open>productDetails\<close> does not hold would
  throw (\<open>None\<close>).
\<close>

fun reduce_total :: "(int \<rightharpoonup> product_detail) \<Rightarrow> rat \<Rightarrow> order_item list \<Rightarrow> rat option" where
  "reduce_total productDetails acc [] = Some acc"
| "reduce_total productDetails acc (item # rest) =
     (case productDetails (productId item) of
        None \<Rightarrow> None
      | Some d \<Rightarrow> reduce_total productDetails (acc + d_price d * of_int (quantity item)) rest)"

text \<open>
  The loop that inserts the item rows, statement \<open>k\<close> onwards of the connection.
  \<open>None\<close>: an error was thrown.
\<close>

fun insert_items ::
  "faults \<Rightarrow> nat \<Rightarrow> nat \<Rightarrow> int \<Rightarrow> (int \<rightharpoonup> product_detail) \<Rightarrow> order_item list \<Rightarrow> orderdb
     \<Rightarrow> item_row list option \<times> orderdb \<times> event list" where
  "insert_items fault k now oid productDetails [] db = (Some [], db, [])"
| "insert_items fault k now oid productDetails (item # rest) db =
     (case productDetails (productId item) of
        None \<Rightarrow> (None, db, [])
      | Some d \<Rightarrow>
          (case query_insert_item fault k now oid (productId item) (quantity item)
                  (d_price d) (d_name d) db of
             (Rows (row # _), db') \<Rightarrow>
               (case insert_items fault (Suc k) now oid productDetails rest db' of
                  (None, db'', evs) \<Rightarrow> (None, db'', Client_query INSERT_item # evs)
                | (Some rows, db'', evs) \<Rightarrow> (Some (row # rows), db'', Client_query INSERT_item # evs))
           | (_, db') \<Rightarrow> (None, db', [Client_query INSERT_item])))"

definition item_json :: "item_row \<Rightarrow> json" where
  "item_json item =
     JObj [(''productId'', JNum (of_int (item_product_id item))),
           (''quantity'', JNum (of_int (item_quantity item))),
           (''price'', JNumeric (item_price item)),
           (''productName'', JStr (item_product_name item))]"

definition order_created :: "order_row \<Rightarrow> item_row list \<Rightarrow> response" where
  "order_created order orderItems =
     (201, JObj [(''message'', JStr ''Order created successfully''),
                 (''order'', JObj [(''id'', JNum (of_int (order_id order))),
                                   (''userId'', JNum (of_int (order_user_id order))),
                                   (''totalAmount'', JNumeric (order_total_amount order)),
                                   (''status'', JStr (order_status order)),
                                   (''createdAt'', JDate (order_created_at order)),
                                   (''updatedAt'', JDate (order_updated_at order)),
                                   (''items'', JArr (map item_json orderItems))])])"

text \<open>
  The \<open>try\<close> block on the connection: \<open>BEGIN\<close>, the order row, the item rows,
  \<open>COMMIT\<close>, the reply. The store it works on is the transaction's own view; \<open>None\<close>
  says that an error was thrown.
\<close>

definition transaction ::
  "faults \<Rightarrow> nat \<Rightarrow> int \<Rightarrow> order_item list \<Rightarrow> (int \<rightharpoonup> product_detail) \<Rightarrow> rat \<Rightarrow> orderdb
     \<Rightarrow> response option \<times> orderdb \<times> event list" where
  "transaction fault now uid its productDetails totalAmount db =
     (if fault 0 then (None, db, [Client_query BEGIN])
      else
        (case query_insert_order fault 1 now uid totalAmount ''pending'' db of
           (Rows (order # _), tx) \<Rightarrow>
             (case insert_items fault 2 now (order_id order) productDetails its tx of
                (None, tx', evs) \<Rightarrow>
                  (None, tx', [Client_query BEGIN, Client_query INSERT_order] @ evs)
              | (Some orderItems, tx', evs) \<Rightarrow>
                  if fault (2 + length its)
                  then (None, tx',
                        [Client_query BEGIN, Client_query INSERT_order] @ evs @ [Client_query COMMIT])
                  else (Some (order_created order orderItems), tx',
                        [Client_query BEGIN, Client_query INSERT_order] @ evs @ [Client_query COMMIT]))
         | (_, tx) \<Rightarrow> (None, tx, [Client_query BEGIN, Client_query INSERT_order])))"

text \<open>What \<open>ROLLBACK\<close> (or the loss of the connection) leaves of a transaction: no row;
  numbers drawn from the sequences are not given back.\<close>

definition rolled_back :: "orderdb \<Rightarrow> orderdb \<Rightarrow> orderdb" where
  "rolled_back db tx =
     db \<lparr> orders_id_seq := orders_id_seq tx, order_items_id_seq := order_items_id_seq tx \<rparr>"

text \<open>
  \<open>pool.connect()\<close>, then \<open>try\<close>/\<open>catch\<close>/\<open>finally\<close>: the \<open>catch\<close> sends \<open>ROLLBACK\<close>
  and rethrows to the outer \<open>catch\<close>, which answers 500; \<open>finally\<close> releases the
  connection.
\<close>

definition persist_order ::
  "env \<Rightarrow> int \<Rightarrow> order_item list \<Rightarrow> (int \<rightharpoonup> product_detail) \<Rightarrow> rat \<Rightarrow> orderdb
     \<Rightarrow> response \<times> orderdb \<times> event list" where
  "persist_order e uid its productDetails totalAmount db =
     (if connect_fault e then (internal_server_error, db, [Pool_connect])
      else
        (case transaction (store_fault e) (clock e) uid its productDetails totalAmount db of
           (Some r, tx, evs) \<Rightarrow> (r, tx, Pool_connect # evs @ [Client_release])
         | (None, tx, evs) \<Rightarrow>
             (internal_server_error, rolled_back db tx,
              Pool_connect # evs @ [Client_query ROLLBACK, Client_release])))"

text \<open>\<open>POST /api/orders\<close>: the reply, the stores afterwards, and what was done in order.\<close>

definition create_order :: "env \<Rightarrow> json \<Rightarrow> world \<Rightarrow> response \<times> world \<times> event list" where
  "create_order e body w =
     (case orderSchema_validate body of
        Inl err \<Rightarrow> ((400, error_body (joi_message err)), w, [])
      | Inr v \<Rightarrow>
          (case axios_get_user e 0 (userId v) (user_store w) of
             (Rejected st, udb) \<Rightarrow>
               (if st = Some 404 then (400, error_body ''User not found'') else internal_server_error,
                w \<lparr> user_store := udb \<rparr>, [Http_get_user (userId v)])
           | (Resolved _, udb) \<Rightarrow>
               (case verify_products e 1 (items v) Map.empty (product_store w) of
                  (Inl r, pdb, evs) \<Rightarrow>
                    (r, w \<lparr> user_store := udb, product_store := pdb \<rparr>, Http_get_user (userId v) # evs)
                | (Inr productDetails, pdb, evs) \<Rightarrow>
                    (case reduce_total productDetails 0 (items v) of
                       None \<Rightarrow>
                         (internal_server_error, w \<lparr> user_store := udb, product_store := pdb \<rparr>,
                          Http_get_user (userId v) # evs)
                     | Some totalAmount \<Rightarrow>
                         (case persist_order e (userId v) (items v) productDetails totalAmount
                                 (order_store w) of
                            (r, odb, evs') \<Rightarrow>
                              (r, \<lparr> user_store = udb, product_store = pdb, order_store = odb \<rparr>,
                               Http_get_user (userId v) # evs @ evs'))))))"

subsection \<open>Reading and updating orders\<close>

text \<open>
  The display name of an order's user: \<open>userResponse.data.user.name\<close>, or
  \<open>'Unknown User'\<close> when the lookup or the access throws. \<open>None\<close> is \<open>undefined\<close>,
  which \<open>res.json\<close> leaves out.
\<close>

definition lookup_userName :: "env \<Rightarrow> nat \<Rightarrow> int \<Rightarrow> userdb \<Rightarrow> json option \<times> userdb" where
  "lookup_userName e k uid db =
     (case axios_get_user e k uid db of
        (Resolved data, db') \<Rightarrow>
          (case jget ''user'' data of
             None \<Rightarrow> (Some (JStr ''Unknown User''), db')
           | Some JNull \<Rightarrow> (Some (JStr ''Unknown User''), db')
           | Some u \<Rightarrow> (jget ''name'' u, db'))
      | (Rejected _, db') \<Rightarrow> (Some (JStr ''Unknown User''), db'))"

definition order_json :: "order_row \<Rightarrow> json option option \<Rightarrow> item_row list option \<Rightarrow> json" where
  "order_json order userName its =
     JObj ([(''id'', JNum (of_int (order_id order))),
            (''userId'', JNum (of_int (order_user_id order)))] @
           (case userName of Some (Some n) \<Rightarrow> [(''userName'', n)] | _ \<Rightarrow> []) @
           [(''totalAmount'', JNumeric (order_total_amount order)),
            (''status'', JStr (order_status order)),
            (''createdAt'', JDate (order_created_at order)),
            (''updatedAt'', JDate (order_updated_at order))] @
           (case its of Some rows \<Rightarrow> [(''items'', JArr (map item_json rows))] | None \<Rightarrow> []))"

text \<open>
  The loop of \<open>GET /api/orders\<close>: per order one statement (the \<open>k\<close>-th of the request)
  for its items and one outbound call (the \<open>c\<close>-th) for its user's name.
\<close>

fun enrich_orders ::
  "env \<Rightarrow> nat \<Rightarrow> nat \<Rightarrow> order_row list \<Rightarrow> world \<Rightarrow> json list option \<times> world" where
  "enrich_orders e k c [] w = (Some [], w)"
| "enrich_orders e k c (order # rest) w =
     (case query_items_by_order (store_fault e) k (order_id order) (order_store w) of
        Query_error \<Rightarrow> (None, w)
      | Rows itemRows \<Rightarrow>
          (case lookup_userName e c (order_user_id order) (user_store w) of
             (userName, udb) \<Rightarrow>
               (case enrich_orders e (Suc k) (Suc c) rest (w \<lparr> user_store := udb \<rparr>) of
                  (None, w') \<Rightarrow> (None, w')
                | (Some js, w') \<Rightarrow> (Some (order_json order (Some userName) (Some itemRows) # js), w'))))"

text \<open>\<open>GET /api/orders\<close>\<close>

definition get_orders :: "env \<Rightarrow> world \<Rightarrow> response \<times> world" where
  "get_orders e w =
     (case query_orders_all (store_fault e) 0 (order_store w) of
        Query_error \<Rightarrow> (internal_server_error, w)
      | Rows rows \<Rightarrow>
          (case enrich_orders e 1 0 rows w of
             (None, w') \<Rightarrow> (internal_server_error, w')
           | (Some js, w') \<Rightarrow> ((200, JObj [(''orders'', JArr js)]), w')))"

text \<open>\<open>GET /api/orders/:id\<close>\<close>

definition get_order :: "env \<Rightarrow> int \<Rightarrow> world \<Rightarrow> response \<times> world" where
  "get_order e i w =
     (case query_orders_by_id (store_fault e) 0 i (order_store w) of
        Query_error \<Rightarrow> (internal_server_error, w)
      | Rows [] \<Rightarrow> ((404, error_body ''Order not found''), w)
      | Rows (order # _) \<Rightarrow>
          (case query_items_by_order (store_fault e) 1 i (order_store w) of
             Query_error \<Rightarrow> (internal_server_error, w)
           | Rows itemRows \<Rightarrow>
               (case lookup_userName e 0 (order_user_id order) (user_store w) of
                  (userName, udb) \<Rightarrow>
                    ((200, JObj [(''order'', order_json order (Some userName) (Some itemRows))]),
                     w \<lparr> user_store := udb \<rparr>))))"

text \<open>\<open>PUT /api/orders/:id\<close>\<close>

definition update_order :: "env \<Rightarrow> int \<Rightarrow> json \<Rightarrow> world \<Rightarrow> response \<times> world" where
  "update_order e i body w =
     (case updateOrderSchema_validate body of
        Inl err \<Rightarrow> ((400, error_body (joi_message err)), w)
      | Inr st \<Rightarrow>
          (case query_update_order_status (store_fault e) 0 (clock e) st i (order_store w) of
             (Query_error, odb) \<Rightarrow> (internal_server_error, w \<lparr> order_store := odb \<rparr>)
           | (Rows [], odb) \<Rightarrow> ((404, error_body ''Order not found''), w \<lparr> order_store := odb \<rparr>)
           | (Rows (order # _), odb) \<Rightarrow>
               ((200, JObj [(''message'', JStr ''Order status updated successfully''),
                            (''order'', order_json order None None)]),
                w \<lparr> order_store := odb \<rparr>)))"

text \<open>\<open>GET /api/orders/user/:userId\<close>\<close>

fun collect_user_orders :: "env \<Rightarrow> nat \<Rightarrow> order_row list \<Rightarrow> orderdb \<Rightarrow> json list option" where
  "collect_user_orders e k [] db = Some []"
| "collect_user_orders e k (order # rest) db =
     (case query_items_by_order (store_fault e) k (order_id order) db of
        Query_error \<Rightarrow> None
      | Rows itemRows \<Rightarrow>
          (case collect_user_orders e (Suc k) rest db of
             None \<Rightarrow> None
           | Some js \<Rightarrow> Some (order_json order None (Some itemRows) # js)))"

definition get_user_orders :: "env \<Rightarrow> int \<Rightarrow> world \<Rightarrow> response \<times> world" where
  "get_user_orders e u w =
     (case query_orders_by_user (store_fault e) 0 u (order_store w) of
        Query_error \<Rightarrow> (internal_server_error, w)
      | Rows rows \<Rightarrow>
          (case collect_user_orders e 1 rows (order_store w) of
             None \<Rightarrow> (internal_server_error, w)
           | Some js \<Rightarrow> ((200, JObj [(''orders'', JArr js)]), w)))"

subsection \<open>Routes\<close>

text \<open>
  The routes of the order service in the order of their registration, and the catch-all
  \<open>app.use('*', ...)\<close> behind them. A path is given by the route it can match, with the
  identifier it carries.
\<close>

datatype verb = GET | POST | PUT | DELETE | PATCH

datatype order_path =
    Path_health
  | Path_orders
  | Path_order int
  | Path_user_orders int
  | Path_other

fun order_service :: "env \<Rightarrow> verb \<Rightarrow> order_path \<Rightarrow> json \<Rightarrow> world \<Rightarrow> response \<times> world" where
  "order_service e GET Path_health body w =
     ((200, JObj [(''status'', JStr ''OK''), (''service'', JStr ''Order Service''),
                  (''timestamp'', JDate (clock e))]), w)"
| "order_service e POST Path_orders body w =
     (case create_order e body w of (r, w', evs) \<Rightarrow> (r, w'))"
| "order_service e GET Path_orders body w = get_orders e w"
| "order_service e GET (Path_order i) body w = get_order e i w"
| "order_service e PUT (Path_order i) body w = update_order e i body w"
| "order_service e GET (Path_user_orders u) body w = get_user_orders e u w"
| "order_service e _ _ body w = ((404, error_body ''Route not found''), w)"

section \<open>Vocabulary of the properties\<close>

text \<open>The entry \<open>productDetails\<close> holds for a product row.\<close>

definition detail_of :: "Product \<Rightarrow> product_detail" where
  "detail_of p = \<lparr> d_price = Price p, d_name = Name p, d_stock = Stock p \<rparr>"

text \<open>An item row written for a line item from the entry of its product.\<close>

definition row_matches :: "int \<Rightarrow> (int \<rightharpoonup> product_detail) \<Rightarrow> order_item \<Rightarrow> item_row \<Rightarrow> bool" where
  "row_matches oid pd item row \<longleftrightarrow>
     item_order_id row = oid \<and> item_product_id row = productId item \<and>
     item_quantity row = quantity item \<and>
     (case pd (productId item) of
        None \<Rightarrow> False
      | Some d \<Rightarrow> item_price row = d_price d \<and> item_product_name row = d_name d)"

text \<open>
  An item row of order \<open>oid\<close> that snapshots a line item: the product and the quantity of
  the item, the price and the name of the product as the product store has them.
\<close>

definition line_snapshot :: "int \<Rightarrow> productdb \<Rightarrow> order_item \<Rightarrow> item_row \<Rightarrow> bool" where
  "line_snapshot oid pdb item row \<longleftrightarrow>
     item_order_id row = oid \<and> item_product_id row = productId item \<and>
     item_quantity row = quantity item \<and>
     (case select_product (productId item) pdb of
        None \<Rightarrow> False
      | Some p \<Rightarrow> item_price row = Price p \<and> item_product_name row = Name p)"

text \<open>The price of a line item's product in the product store times the quantity.\<close>

definition line_amount :: "productdb \<Rightarrow> order_item \<Rightarrow> rat" where
  "line_amount pdb item =
     (case select_product (productId item) pdb of
        None \<Rightarrow> 0
      | Some p \<Rightarrow> Price p * of_int (quantity item))"

text \<open>Whether a call of \<open>axios.get\<close> resolved.\<close>

definition resolved :: "'a axios \<Rightarrow> bool" where
  "resolved a = (case a of Resolved _ \<Rightarrow> True | Rejected _ \<Rightarrow> False)"

text \<open>
  The \<open>k\<close>-th outbound call is answered, finds the product of the item, and the stock
  covers the quantity.
\<close>

definition passes_check :: "env \<Rightarrow> productdb \<Rightarrow> nat \<Rightarrow> order_item \<Rightarrow> bool" where
  "passes_check e pdb k item \<longleftrightarrow>
     \<not> net_fault e k \<and> \<not> peer_fault e k 0 \<and>
     (case select_product (productId item) pdb of
        None \<Rightarrow> False
      | Some p \<Rightarrow> quantity item \<le> Stock p)"

text \<open>The user store with every stored hash replaced, row by row.\<close>

definition with_hashes :: "(user_row \<Rightarrow> string) \<Rightarrow> userdb \<Rightarrow> userdb" where
  "with_hashes h db = db \<lparr> users := map (\<lambda>u. u \<lparr> user_password := h u \<rparr>) (users db) \<rparr>"

text \<open>
  Two registration bodies that Joi treats alike: refused with the same failure, or accepted
  with the same e-mail address and name. The passwords may differ.
\<close>

definition register_alike :: "lib \<Rightarrow> json \<Rightarrow> json \<Rightarrow> bool" where
  "register_alike l body body' =
     (case (userSchema_validate l body, userSchema_validate l body') of
        (Inl e, Inl e') \<Rightarrow> e = e'
      | (Inr v, Inr v') \<Rightarrow> v_email v = v_email v' \<and> v_name v = v_name v'
      | _ \<Rightarrow> False)"

text \<open>
  Two login bodies, the second against a store whose hashes were replaced by \<open>h\<close>, that
  are alike up to the password and the hash: refused with the same failure, or accepted
  with the same e-mail address and with the same verdict of \<open>bcrypt.compare\<close> on every
  row of that address.
\<close>

definition login_alike :: "lib \<Rightarrow> (user_row \<Rightarrow> string) \<Rightarrow> userdb \<Rightarrow> json \<Rightarrow> json \<Rightarrow> bool" where
  "login_alike l h db body body' =
     (case (loginSchema_validate l body, loginSchema_validate l body') of
        (Inl e, Inl e') \<Rightarrow> e = e'
      | (Inr (email, password), Inr (email', password')) \<Rightarrow>
          email = email' \<and>
          (\<forall>u \<in> set (users db). user_email u = email \<longrightarrow>
             bcrypt_compare l password' (h u) = bcrypt_compare l password (user_password u))
      | _ \<Rightarrow> False)"

text \<open>
  The key columns are \<open>INTEGER\<close>: a statement whose identifier is outside that range
  is refused by the store. These are the faults of a request on account of its identifier.
\<close>

definition integer_column_faults :: "int \<Rightarrow> faults" where
  "integer_column_faults i = (\<lambda>k. i < - 2147483648 \<or> 2147483647 < i)"

section \<open>Sample data\<close>

text \<open>Rows after the sample data of the schema files (the stored hash is shortened), and
  the struct decoded from a body that mentions the price alone, \<open>{"price": x}\<close>: every
  other field is at Go's zero value.\<close>

definition laptop :: Product where
  "laptop = \<lparr> ID = 1, Name = ''Laptop'',
      Description = ''High-performance laptop for gaming and work'',
      Price = 999.99, Stock = 10, Category = ''Electronics'', CreatedAt = 0, UpdatedAt = 0 \<rparr>"

definition mouse :: Product where
  "mouse = \<lparr> ID = 5, Name = ''Wireless Mouse'', Description = ''Bluetooth wireless mouse'',
      Price = 29.99, Stock = 50, Category = ''Electronics'', CreatedAt = 0, UpdatedAt = 0 \<rparr>"

definition price_only :: "rat \<Rightarrow> UpdateProductRequest" where
  "price_only x = \<lparr> u_Name = [], u_Description = [], u_Price = x, u_Stock = 0, u_Category = [] \<rparr>"

definition john :: user_row where
  "john = \<lparr> user_id = 1, user_email = ''john@example.com'', user_password = ''$2a$10$X6zI3QGQ'',
      user_name = ''John Doe'', user_created_at = 0, user_updated_at = 0 \<rparr>"

text \<open>Stand-ins for the libraries, to run the handlers on the sample data.\<close>

definition sample_lib :: lib where
  "sample_lib = \<lparr> joi_email = (\<lambda>s. CHR ''@'' \<in> set s),
      bcrypt_hash = (\<lambda>p. ''$2a$10$'' @ p),
      bcrypt_compare = (\<lambda>p h. h = ''$2a$10$'' @ p),
      jwt_sign = (\<lambda>i email. ''jwt:'' @ show_int i @ '':'' @ email),
      pg_prepare = (\<lambda>j. []) \<rparr>"

definition sample_world :: world where
  "sample_world =
     \<lparr> user_store = \<lparr> users = [john], users_id_seq = 2 \<rparr>,
       product_store = \<lparr> products = [laptop, mouse], products_id_seq = 6 \<rparr>,
       order_store = \<lparr> orders = [], order_items = [], orders_id_seq = 1, order_items_id_seq = 1 \<rparr> \<rparr>"

definition calm :: env where
  "calm = \<lparr> clock = 7, net_fault = (\<lambda>k. False), peer_fault = (\<lambda>k. no_faults),
             connect_fault = False, store_fault = no_faults \<rparr>"

definition order_body :: "int \<Rightarrow> (int \<times> int) list \<Rightarrow> json" where
  "order_body u its =
     JObj [(''userId'', JNum (of_int u)),
           (''items'', JArr (map (\<lambda>(p, q). JObj [(''productId'', JNum (of_int p)),
                                                    (''quantity'', JNum (of_int q))]) its))]"

text \<open>The order the sample request creates, and the run that creates it.\<close>

definition sample_order :: order_row where
  "sample_order = \<lparr> order_id = 1, order_user_id = 1, order_total_amount = 2089.95,
      order_status = ''pending'', order_created_at = 7, order_updated_at = 7 \<rparr>"

definition sample_rows :: "item_row list" where
  "sample_rows =
     [\<lparr> item_id = 1, item_order_id = 1, item_product_id = 1, item_quantity = 2,
         item_price = 999.99, item_product_name = ''Laptop'', item_created_at = 7 \<rparr>,
      \<lparr> item_id = 2, item_order_id = 1, item_product_id = 5, item_quantity = 3,
         item_price = 29.99, item_product_name = ''Wireless Mouse'', item_created_at = 7 \<rparr>]"

definition sample_events :: "event list" where
  "sample_events =
     [Http_get_user 1, Http_get_product 1, Http_get_product 5, Pool_connect,
      Client_query BEGIN, Client_query INSERT_order, Client_query INSERT_item,
      Client_query INSERT_item, Client_query COMMIT, Client_release]"

definition sample_world_after :: world where
  "sample_world_after =
     sample_world \<lparr> order_store :=
       \<lparr> orders = [sample_order], order_items = sample_rows,
         orders_id_seq = 2, order_items_id_seq = 3 \<rparr> \<rparr>"

text \<open>Surroundings in which the second item \<open>INSERT\<close> is refused, and in which the user
  service does not answer.\<close>

definition item_insert_refused :: env where
  "item_insert_refused = calm \<lparr> store_fault := (\<lambda>k. k = 3) \<rparr>"

definition user_service_away :: env where
  "user_service_away = calm \<lparr> net_fault := (\<lambda>k. k = 0) \<rparr>"

text \<open>A request for three mice and fifty laptops, as validated.\<close>

definition short_order :: order_value where
  "short_order = \<lparr> userId = 1, items = [\<lparr> productId = 5, quantity = 3 \<rparr>,
                                        \<lparr> productId = 1, quantity = 50 \<rparr>] \<rparr>"


definition login_body :: json where
  "login_body = JObj [(''email'', JStr ''john@example.com''), (''password'', JStr ''X6zI3QGQ'')]"



text \<open>A registration body with a given password, another hash function, and a store
  whose hashes are erased.\<close>

definition alice_body :: "string \<Rightarrow> json" where
  "alice_body password =
     JObj [(''email'', JStr ''a@x.com''), (''password'', JStr password), (''name'', JStr ''Alice'')]"

definition other_hash :: "string \<Rightarrow> string" where
  "other_hash p = ''$2b$12$'' @ rev p"

definition erased :: "user_row \<Rightarrow> string" where
  "erased u = ''erased''"

text \<open>A login body for John with another password, and a store in which every hash is the
  sample hash of that password.\<close>

definition other_login_body :: json where
  "other_login_body = JObj [(''email'', JStr ''john@example.com''), (''password'', JStr ''hunter22'')]"

definition rehashed :: "user_row \<Rightarrow> string" where
  "rehashed u = ''$2a$10$hunter22''"

section \<open>Properties of the product service\<close>

text \<open>
  C1. The claim: an update whose body holds the price alone changes the price and
  \<open>updated_at\<close> and nothing else. The handler tests the stock with \<open>>= 0\<close>, which the
  zero value of an absent field passes, so the stock is written too: on the sample row
  (stock 10) the body \<open>{"price": 150}\<close> is answered 200 and leaves the stock at 0.
\<close>

theorem updateProduct_price_only_zeroes_stock:
  "updateProduct no_faults 7 1 (Inr (price_only 150)) \<lparr> products = [laptop], products_id_seq = 2 \<rparr>
   = ((200, H_message_product ''Product updated successfully''
             (laptop \<lparr> Price := 150, Stock := 0, UpdatedAt := 7 \<rparr>)),
      \<lparr> products = [laptop \<lparr> Price := 150, Stock := 0, UpdatedAt := 7 \<rparr>], products_id_seq = 2 \<rparr>)
   \<and> Stock laptop = 10"
  by (simp add: updateProduct_def ShouldBindJSON_update_def build_updates_def price_only_def
      query_update_product_def no_faults_def select_product_def laptop_def products_check_def Let_def)

text \<open>
  C10. A create request whose stock is 0 is answered 400 and stores nothing: the
  \<open>required\<close> tag of \<open>Stock\<close> fails on the zero value, and its failure is among
  those reported. The \<open>CHECK\<close>s of the table accept a stock of 0.
\<close>

theorem createProduct_zero_stock_rejected:
  "c_Stock req = 0 \<Longrightarrow>
     createProduct fault now (Inr req) db
       = ((400, H_error (join_lines (validate_CreateProductRequest req))), db)
     \<and> field_error ''Stock'' ''required'' \<in> set (validate_CreateProductRequest req)
     \<and> (products_check (p \<lparr> Stock := c_Stock req \<rparr>) \<longleftrightarrow> Price p > 0)"
  by (auto simp: createProduct_def ShouldBindJSON_create_def validate_CreateProductRequest_def
      products_check_def split: list.splits)

theorem createProduct_zero_stock_rejected_witness:
  "c_Stock \<lparr> c_Name = ''Widget'', c_Description = ''A widget'', c_Price = 10, c_Stock = 0,
            c_Category = ''Tools'' \<rparr> = 0
   \<and> createProduct no_faults 7
     (Inr \<lparr> c_Name = ''Widget'', c_Description = ''A widget'', c_Price = 10, c_Stock = 0,
            c_Category = ''Tools'' \<rparr>)
     \<lparr> products = [laptop], products_id_seq = 2 \<rparr>
   = ((400, H_error (field_error ''Stock'' ''required'')),
      \<lparr> products = [laptop], products_id_seq = 2 \<rparr>)
   \<and> products_check (laptop \<lparr> Stock := 0 \<rparr>)"
  using createProduct_zero_stock_rejected
    [of "\<lparr> c_Name = ''Widget'', c_Description = ''A widget'', c_Price = 10, c_Stock = 0,
            c_Category = ''Tools'' \<rparr>" no_faults 7 "\<lparr> products = [laptop], products_id_seq = 2 \<rparr>"
        laptop]
  by (simp add: validate_CreateProductRequest_def laptop_def)

section \<open>Properties of the user service\<close>

lemma insort_key_map_commute:
  "(\<And>x. k (f x) = k x) \<Longrightarrow> insort_key k (f x) (map f xs) = map f (insort_key k x xs)"
  by (induction xs) auto

lemma sort_key_map_commute:
  "(\<And>x. k (f x) = k x) \<Longrightarrow> sort_key k (map f xs) = map f (sort_key k xs)"
  by (induction xs) (auto simp: insort_key_map_commute)

lemma filter_map_commute:
  "(\<And>x. P (f x) = P x) \<Longrightarrow> filter P (map f xs) = map f (filter P xs)"
  by (induction xs) auto

lemma get_users_hashes: "fst (get_users fault (with_hashes h db)) = fst (get_users fault db)"
  by (simp add: get_users_def query_users_all_def with_hashes_def sort_key_map_commute rev_map comp_def)

lemma get_user_hashes: "fst (get_user fault i (with_hashes h db)) = fst (get_user fault i db)"
  by (simp add: get_user_def query_users_by_id_def with_hashes_def filter_map_commute
      split: list.splits)

lemma delete_user_hashes: "fst (delete_user fault i (with_hashes h db)) = fst (delete_user fault i db)"
  by (simp add: delete_user_def query_delete_user_def with_hashes_def filter_map_commute
      split: list.splits)

lemma update_user_hashes:
  "fst (update_user l fault now i body (with_hashes h db)) = fst (update_user l fault now i body db)"
  by (auto simp: update_user_def query_update_user_def with_hashes_def filter_map_commute Let_def
      split: list.splits option.splits)

lemma register_user_hashes:
  "fst (register_user l fault now body (with_hashes h db)) = fst (register_user l fault now body db)"
  by (auto simp: register_user_def query_users_by_email_def query_insert_user_def with_hashes_def
      filter_map_commute Let_def split: sum.splits list.splits)

lemma login_user_hashes:
  "(\<And>p u. u \<in> set (users db) \<Longrightarrow> bcrypt_compare l p (h u) = bcrypt_compare l p (user_password u)) \<Longrightarrow>
   fst (login_user l fault body (with_hashes h db)) = fst (login_user l fault body db)"
proof (cases "loginSchema_validate l body")
  case (Inl err)
  then show ?thesis by (simp add: login_user_def)
next
  case (Inr v)
  obtain email password where v: "v = (email, password)" by (cases v)
  assume same: "\<And>p u. u \<in> set (users db) \<Longrightarrow> bcrypt_compare l p (h u) = bcrypt_compare l p (user_password u)"
  show ?thesis
  proof (cases "filter (\<lambda>u. user_email u = email) (users db)")
    case Nil
    with Inr v show ?thesis
      by (simp add: login_user_def query_users_by_email_def with_hashes_def filter_map_commute)
  next
    case (Cons user rest)
    have "set (filter (\<lambda>u. user_email u = email) (users db)) \<subseteq> set (users db)"
      by simp
    with Cons have "user \<in> set (users db)"
      by auto
    from same [OF this] Inr v Cons show ?thesis
      by (simp add: login_user_def query_users_by_email_def with_hashes_def filter_map_commute Let_def)
  qed
qed

lemma has_field_error_body: "has_field k (error_body m) \<longleftrightarrow> k = ''error''"
  by (auto simp: error_body_def)

lemma no_password_field:
  "\<not> has_field ''password'' (snd (fst (register_user l fault now body db)))"
  "\<not> has_field ''password'' (snd (fst (login_user l fault body db)))"
  "\<not> has_field ''password'' (snd (fst (get_users fault db)))"
  "\<not> has_field ''password'' (snd (fst (get_user fault i db)))"
  "\<not> has_field ''password'' (snd (fst (update_user l fault now i body db)))"
  "\<not> has_field ''password'' (snd (fst (delete_user fault i db)))"
proof -
  show "\<not> has_field ''password'' (snd (fst (register_user l fault now body db)))"
    by (auto simp: register_user_def internal_server_error_def has_field_error_body Let_def
        split: sum.splits query.splits list.splits prod.splits)
  show "\<not> has_field ''password'' (snd (fst (login_user l fault body db)))"
    by (auto simp: login_user_def internal_server_error_def has_field_error_body Let_def
        split: sum.splits query.splits list.splits prod.splits)
  show "\<not> has_field ''password'' (snd (fst (get_users fault db)))"
    by (auto simp: get_users_def internal_server_error_def has_field_error_body
        split: query.splits)
  show "\<not> has_field ''password'' (snd (fst (get_user fault i db)))"
    by (auto simp: get_user_def internal_server_error_def has_field_error_body
        split: query.splits list.splits)
  show "\<not> has_field ''password'' (snd (fst (update_user l fault now i body db)))"
    by (auto simp: update_user_def internal_server_error_def has_field_error_body Let_def
        split: query.splits list.splits prod.splits)
  show "\<not> has_field ''password'' (snd (fst (delete_user fault i db)))"
    by (auto simp: delete_user_def internal_server_error_def has_field_error_body
        split: query.splits list.splits prod.splits)
qed

lemma userSchema_validate_hash [simp]:
  "userSchema_validate (l \<lparr> bcrypt_hash := g \<rparr>) body = userSchema_validate l body"
  by (cases body) (simp_all add: userSchema_validate_def)

lemma register_user_refused:
  "userSchema_validate l body = Inl e \<Longrightarrow>
     fst (register_user l fault now body db) = (400, error_body (joi_message e))"
  by (simp add: register_user_def)

lemma register_user_accepted:
  "userSchema_validate l body = Inr v \<Longrightarrow>
     fst (register_user l fault now body db)
       = (if fault 0 then internal_server_error
          else if \<exists>u \<in> set (users db). user_email u = v_email v
               then (409, error_body ''User already exists'')
          else if fault 1 then internal_server_error
          else (201, JObj [(''message'', JStr ''User created successfully''),
                           (''user'', JObj [(''id'', JNum (of_int (users_id_seq db))),
                                            (''email'', JStr (v_email v)),
                                            (''name'', JStr (v_name v)),
                                            (''createdAt'', JDate now)])]))"
  by (auto simp: register_user_def query_users_by_email_def query_insert_user_def Let_def
      filter_empty_conv)

lemma with_hashes_simps [simp]:
  "users_id_seq (with_hashes h db) = users_id_seq db"
  "user_email ` set (users (with_hashes h db)) = user_email ` set (users db)"
  by (auto simp: with_hashes_def image_iff)

lemma register_user_blind:
  assumes "register_alike l body body'"
  shows "fst (register_user (l \<lparr> bcrypt_hash := g \<rparr>) fault now body' (with_hashes h db))
           = fst (register_user l fault now body db)"
proof (cases "userSchema_validate l body")
  case (Inl e)
  with assms have "userSchema_validate l body' = Inl e"
    by (auto simp: register_alike_def split: sum.splits)
  with Inl show ?thesis
    by (simp add: register_user_refused)
next
  case (Inr v)
  with assms obtain v' where v': "userSchema_validate l body' = Inr v'"
      "v_email v' = v_email v" "v_name v' = v_name v"
    by (auto simp: register_alike_def split: sum.splits)
  have "(\<exists>u \<in> set (users (with_hashes h db)). user_email u = v_email v)
          = (\<exists>u \<in> set (users db). user_email u = v_email v)"
    by (auto simp: with_hashes_def)
  with Inr v' show ?thesis
    by (simp add: register_user_accepted)
qed

lemma login_user_refused:
  "loginSchema_validate l body = Inl e \<Longrightarrow>
     fst (login_user l fault body db) = (400, error_body (joi_message e))"
  by (simp add: login_user_def)

lemma login_user_blind:
  assumes "login_alike l h db body body'"
  shows "fst (login_user l fault body' (with_hashes h db)) = fst (login_user l fault body db)"
proof (cases "loginSchema_validate l body")
  case (Inl e)
  with assms have "loginSchema_validate l body' = Inl e"
    by (auto simp: login_alike_def split: sum.splits)
  with Inl show ?thesis
    by (simp add: login_user_refused)
next
  case (Inr v)
  obtain email password where v: "v = (email, password)" by (cases v)
  with Inr assms obtain password' where
    v': "loginSchema_validate l body' = Inr (email, password')"
    and same: "\<And>u. u \<in> set (users db) \<Longrightarrow> user_email u = email \<Longrightarrow>
                 bcrypt_compare l password' (h u) = bcrypt_compare l password (user_password u)"
    by (auto simp: login_alike_def split: sum.splits)
  show ?thesis
  proof (cases "filter (\<lambda>u. user_email u = email) (users db)")
    case Nil
    with Inr v v' show ?thesis
      by (simp add: login_user_def query_users_by_email_def with_hashes_def filter_map_commute)
  next
    case (Cons user rest)
    then have "user \<in> set (filter (\<lambda>u. user_email u = email) (users db))"
      by simp
    then have "user \<in> set (users db)" "user_email user = email"
      by simp_all
    from same [OF this] Inr v v' Cons show ?thesis
      by (simp add: login_user_def query_users_by_email_def with_hashes_def filter_map_commute Let_def)
  qed
qed

lemma update_user_blind:
  assumes "jget ''name'' body' = jget ''name'' body" "jget ''email'' body' = jget ''email'' body"
  shows "fst (update_user l fault now i body' (with_hashes h db)) = fst (update_user l fault now i body db)"
proof -
  have "fst (update_user l fault now i body' db) = fst (update_user l fault now i body db)"
    using assms by (simp add: update_user_def)
  with update_user_hashes [of l fault now i body' h db] show ?thesis
    by simp
qed

text \<open>
  C8. No reply of the user service has a field named \<open>password\<close>, at any depth, and no
  reply depends on a password or on a hash. Registration: two bodies that Joi treats alike
  get the same reply, whatever their passwords, whatever \<open>bcrypt.hash\<close> returns and
  whatever hashes the store holds. Login: the reply depends on the password sent and on the
  hash read only through the verdict of \<open>bcrypt.compare\<close>. Update: the reply depends
  on the body only through \<open>name\<close> and \<open>email\<close>. The reads, update and delete give
  the same reply whatever hashes the store holds.
\<close>

theorem user_service_never_returns_password:
  "\<not> has_field ''password'' (snd (fst (register_user l fault now body db)))
   \<and> \<not> has_field ''password'' (snd (fst (login_user l fault body db)))
   \<and> \<not> has_field ''password'' (snd (fst (get_users fault db)))
   \<and> \<not> has_field ''password'' (snd (fst (get_user fault i db)))
   \<and> \<not> has_field ''password'' (snd (fst (update_user l fault now i body db)))
   \<and> \<not> has_field ''password'' (snd (fst (delete_user fault i db)))
   \<and> (register_alike l body body' \<longrightarrow>
        fst (register_user (l \<lparr> bcrypt_hash := g \<rparr>) fault now body' (with_hashes h db))
          = fst (register_user l fault now body db))
   \<and> (login_alike l h db body body' \<longrightarrow>
        fst (login_user l fault body' (with_hashes h db)) = fst (login_user l fault body db))
   \<and> (jget ''name'' body' = jget ''name'' body \<and> jget ''email'' body' = jget ''email'' body \<longrightarrow>
        fst (update_user l fault now i body' (with_hashes h db))
          = fst (update_user l fault now i body db))
   \<and> fst (get_users fault (with_hashes h db)) = fst (get_users fault db)
   \<and> fst (get_user fault i (with_hashes h db)) = fst (get_user fault i db)
   \<and> fst (delete_user fault i (with_hashes h db)) = fst (delete_user fault i db)"
  by (simp add: no_password_field register_user_blind login_user_blind update_user_blind
      get_users_hashes get_user_hashes delete_user_hashes)

lemma sample_login:
  "fst (login_user sample_lib no_faults login_body (user_store sample_world))
     = (200, JObj [(''message'', JStr ''Login successful''),
                   (''token'', JStr ''jwt:1:john@example.com''),
                   (''user'', JObj [(''id'', JNum 1), (''email'', JStr ''john@example.com''),
                                    (''name'', JStr ''John Doe'')])])"
  by code_simp

lemma sample_register:
  "fst (register_user sample_lib no_faults 9 (alice_body ''secret1'') (user_store sample_world))
     = (201, JObj [(''message'', JStr ''User created successfully''),
                   (''user'', JObj [(''id'', JNum 2), (''email'', JStr ''a@x.com''),
                                    (''name'', JStr ''Alice''), (''createdAt'', JDate 9)])])"
  by code_simp

lemma sample_alike:
  "register_alike sample_lib (alice_body ''secret1'') (alice_body ''hunter22'')"
  "login_alike sample_lib rehashed (user_store sample_world) login_body other_login_body"
  "jget ''name'' (alice_body ''hunter22'') = jget ''name'' (alice_body ''secret1'')"
  "jget ''email'' (alice_body ''hunter22'') = jget ''email'' (alice_body ''secret1'')"
  by code_simp+

theorem user_service_never_returns_password_witness:
  "fst (register_user sample_lib no_faults 9 (alice_body ''secret1'') (user_store sample_world))
     = (201, JObj [(''message'', JStr ''User created successfully''),
                   (''user'', JObj [(''id'', JNum 2), (''email'', JStr ''a@x.com''),
                                    (''name'', JStr ''Alice''), (''createdAt'', JDate 9)])])
   \<and> fst (register_user (sample_lib \<lparr> bcrypt_hash := other_hash \<rparr>) no_faults 9
            (alice_body ''hunter22'') (with_hashes erased (user_store sample_world)))
     = (201, JObj [(''message'', JStr ''User created successfully''),
                   (''user'', JObj [(''id'', JNum 2), (''email'', JStr ''a@x.com''),
                                    (''name'', JStr ''Alice''), (''createdAt'', JDate 9)])])
   \<and> fst (login_user sample_lib no_faults login_body (user_store sample_world))
     = (200, JObj [(''message'', JStr ''Login successful''),
                   (''token'', JStr ''jwt:1:john@example.com''),
                   (''user'', JObj [(''id'', JNum 1), (''email'', JStr ''john@example.com''),
                                    (''name'', JStr ''John Doe'')])])
   \<and> fst (login_user sample_lib no_faults other_login_body
            (with_hashes rehashed (user_store sample_world)))
     = fst (login_user sample_lib no_faults login_body (user_store sample_world))
   \<and> has_field ''password'' login_body
   \<and> \<not> has_field ''password'' (snd (fst (login_user sample_lib no_faults login_body (user_store sample_world))))"
  using user_service_never_returns_password
      [where l = sample_lib and fault = no_faults and now = 9 and body = "alice_body ''secret1''"
         and body' = "alice_body ''hunter22''" and g = other_hash and h = erased
         and db = "user_store sample_world"]
    user_service_never_returns_password
      [where l = sample_lib and fault = no_faults and body = login_body
         and body' = other_login_body and h = rehashed and db = "user_store sample_world"]
    sample_register sample_alike sample_login
  by (simp add: login_body_def)

section \<open>Properties of order creation\<close>

subsection \<open>The lookups\<close>

lemma axios_get_product_frame: "snd (axios_get_product e k i db) = db"
  by (simp add: axios_get_product_def getProduct_def split: scan.splits)

lemma axios_get_user_frame: "snd (axios_get_user e k i db) = db"
  by (simp add: axios_get_user_def get_user_def split: query.splits list.splits)

lemma axios_get_product_Resolved:
  "axios_get_product e k i db = (Resolved b, db') \<Longrightarrow>
     \<exists>p. b = H_product p \<and> select_product i db = Some p \<and> db' = db"
  by (auto simp: axios_get_product_def getProduct_def query_select_product_def axios_settle_def
      split: if_splits option.splits)

lemma axios_get_product_found:
  "\<not> net_fault e k \<Longrightarrow> \<not> peer_fault e k 0 \<Longrightarrow> select_product i db = Some p \<Longrightarrow>
     axios_get_product e k i db = (Resolved (H_product p), db)"
  by (simp add: axios_get_product_def getProduct_def query_select_product_def axios_settle_def)

lemma verify_products_frame:
  "verify_products e k its pd db = (r, db', evs) \<Longrightarrow> db' = db"
proof (induction its arbitrary: k pd r evs)
  case Nil
  then show ?case by simp
next
  case (Cons item rest)
  obtain a d where g: "axios_get_product e k (productId item) db = (a, d)"
    by (cases "axios_get_product e k (productId item) db")
  with axios_get_product_frame [of e k "productId item" db] have d: "d = db" by simp
  from Cons.prems g d Cons.IH show ?case
    by (auto split: axios.splits gin_body.splits if_splits prod.splits)
qed

lemma verify_products_http:
  "verify_products e k its pd db = (r, db', evs) \<Longrightarrow> \<forall>ev \<in> set evs. is_http ev"
proof (induction its arbitrary: k pd db r db' evs)
  case Nil
  then show ?case by simp
next
  case (Cons item rest)
  then show ?case
    by (auto split: axios.splits gin_body.splits if_splits prod.splits)
qed

lemma verify_products_trace:
  "verify_products e k its pd db = (Inr pd', db', evs) \<Longrightarrow>
     evs = map (\<lambda>item. Http_get_product (productId item)) its"
proof (induction its arbitrary: k pd evs)
  case Nil
  then show ?case by simp
next
  case (Cons item rest)
  obtain a d where g: "axios_get_product e k (productId item) db = (a, d)"
    by (cases "axios_get_product e k (productId item) db")
  with axios_get_product_frame [of e k "productId item" db] have d: "d = db" by simp
  from Cons.prems g d Cons.IH show ?case
    by (auto split: axios.splits gin_body.splits if_splits prod.splits)
qed

lemma verify_products_Inl:
  "verify_products e k its pd db = (Inl r, db', evs) \<Longrightarrow> fst r = 400 \<or> r = internal_server_error"
proof (induction its arbitrary: k pd evs)
  case Nil
  then show ?case by simp
next
  case (Cons item rest)
  obtain a d where g: "axios_get_product e k (productId item) db = (a, d)"
    by (cases "axios_get_product e k (productId item) db")
  with axios_get_product_frame [of e k "productId item" db] have d: "d = db" by simp
  from Cons.prems g d Cons.IH show ?case
    by (auto split: axios.splits gin_body.splits if_splits prod.splits)
qed

lemma verify_products_Inr:
  "verify_products e k its pd db = (Inr pd', db', evs) \<Longrightarrow>
     pd' = (\<lambda>i. if i \<in> productId ` set its then map_option detail_of (select_product i db) else pd i)
     \<and> (\<forall>item \<in> set its. \<exists>p. select_product (productId item) db = Some p \<and> quantity item \<le> Stock p)"
proof (induction its arbitrary: k pd evs)
  case Nil
  then show ?case by simp
next
  case (Cons item rest)
  obtain a d where g: "axios_get_product e k (productId item) db = (a, d)"
    by (cases "axios_get_product e k (productId item) db")
  from Cons.prems g obtain b where a: "a = Resolved b"
    by (cases a) (auto split: prod.splits)
  from axios_get_product_Resolved [OF g [unfolded a]] obtain p where
    p: "b = H_product p" "select_product (productId item) db = Some p" "d = db"
    by auto
  from Cons.prems g a p have enough: "quantity item \<le> Stock p"
    by (auto split: if_splits)
  from Cons.prems g a p enough obtain evs1 where
    rec: "verify_products e (Suc k) rest (pd(productId item \<mapsto> detail_of p)) db = (Inr pd', db', evs1)"
    by (auto simp: detail_of_def split: prod.splits)
  from Cons.IH [OF rec] p enough show ?case
    by (auto simp: fun_eq_iff)
qed

lemma verify_products_short_item:
  assumes "item \<in> set its" "select_product (productId item) db = Some p" "Stock p < quantity item"
  shows "\<exists>r. fst (verify_products e k its pd db) = Inl r"
  using assms(1)
proof (induction its arbitrary: k pd)
  case Nil
  then show ?case by simp
next
  case (Cons x rest)
  obtain a d where g: "axios_get_product e k (productId x) db = (a, d)"
    by (cases "axios_get_product e k (productId x) db")
  show ?case
  proof (cases a)
    case (Rejected st)
    with g show ?thesis by simp
  next
    case (Resolved b)
    from axios_get_product_Resolved [OF g [unfolded Resolved]] obtain q where
      q: "b = H_product q" "select_product (productId x) db = Some q" "d = db"
      by auto
    show ?thesis
    proof (cases "Stock q < quantity x")
      case True
      with g Resolved q show ?thesis by simp
    next
      case False
      with assms(2,3) q have "x \<noteq> item" by auto
      with Cons.prems have "item \<in> set rest" by simp
      from Cons.IH [OF this, of "Suc k" "pd(productId x \<mapsto> detail_of q)"]
      obtain r where "fst (verify_products e (Suc k) rest (pd(productId x \<mapsto> detail_of q)) db) = Inl r"
        by blast
      with g Resolved q False show ?thesis
        by (auto simp: detail_of_def split: prod.splits)
    qed
  qed
qed

lemma verify_products_first_short:
  assumes "\<forall>n < length pre. passes_check e db (k + n) (pre ! n)"
    and "\<not> net_fault e (k + length pre)" "\<not> peer_fault e (k + length pre) 0"
    and "select_product (productId item) db = Some p" "Stock p < quantity item"
  shows "fst (verify_products e k (pre @ item # post) pd db)
           = Inl (400, error_body (insufficient_stock p item))"
  using assms(1,2,3)
proof (induction pre arbitrary: k pd)
  case Nil
  with axios_get_product_found [of e k "productId item" db p] assms(4,5) show ?case
    by simp
next
  case (Cons x rest)
  from Cons.prems(1) have "passes_check e db k x"
    by fastforce
  then obtain q where q: "\<not> net_fault e k" "\<not> peer_fault e k 0"
      "select_product (productId x) db = Some q" "quantity x \<le> Stock q"
    by (auto simp: passes_check_def split: option.splits)
  from Cons.prems(1) have rest: "\<forall>n < length rest. passes_check e db (Suc k + n) (rest ! n)"
    by fastforce
  from Cons.IH [OF rest] Cons.prems(2,3)
  have "fst (verify_products e (Suc k) (rest @ item # post) (pd(productId x \<mapsto> detail_of q)) db)
          = Inl (400, error_body (insufficient_stock p item))"
    by simp
  with axios_get_product_found [OF q(1,2,3)] q(4) show ?case
    by (auto simp: detail_of_def split: prod.splits)
qed

lemma reduce_total_sum:
  "\<forall>item \<in> set its. pd (productId item) \<noteq> None \<Longrightarrow>
     reduce_total pd acc its
       = Some (acc + (\<Sum>item \<leftarrow> its. d_price (the (pd (productId item))) * of_int (quantity item)))"
  by (induction its arbitrary: acc) (auto simp: algebra_simps)

subsection \<open>The transaction\<close>

lemma query_insert_item_Rows:
  "query_insert_item fault k now oid pid qty pr nm db = (Rows rs, db') \<Longrightarrow>
     \<exists>row. rs = [row] \<and> orders db' = orders db \<and> order_items db' = order_items db @ [row] \<and>
       item_order_id row = oid \<and> item_product_id row = pid \<and> item_quantity row = qty \<and>
       item_price row = pr \<and> item_product_name row = nm"
  by (auto simp: query_insert_item_def Let_def split: if_splits)

lemma insert_items_store:
  "insert_items fault k now oid pd its db = (r, db', evs) \<Longrightarrow> ev \<in> set evs \<Longrightarrow> \<not> is_http ev"
proof (induction its arbitrary: k db r db' evs)
  case Nil
  then show ?case by simp
next
  case (Cons item rest)
  then show ?case
    by (fastforce split: option.splits query.splits list.splits if_splits prod.splits)
qed

lemma insert_items_rows:
  "insert_items fault k now oid pd its db = (Some rows, db', evs) \<Longrightarrow>
     orders db' = orders db \<and> order_items db' = order_items db @ rows \<and>
     list_all2 (row_matches oid pd) its rows"
proof (induction its arbitrary: k db rows db' evs)
  case Nil
  then show ?case by simp
next
  case (Cons item rest)
  from Cons.prems obtain d where d: "pd (productId item) = Some d"
    by (auto split: option.splits)
  from Cons.prems d obtain row others db1 where
    q: "query_insert_item fault k now oid (productId item) (quantity item) (d_price d) (d_name d) db
          = (Rows (row # others), db1)"
    by (auto split: prod.splits query.splits list.splits)
  from query_insert_item_Rows [OF q] have
    row: "orders db1 = orders db" "order_items db1 = order_items db @ [row]"
         "item_order_id row = oid" "item_product_id row = productId item"
         "item_quantity row = quantity item" "item_price row = d_price d"
         "item_product_name row = d_name d"
    by auto
  from Cons.prems d q obtain rows1 evs1 where
    r: "insert_items fault (Suc k) now oid pd rest db1 = (Some rows1, db', evs1)"
    and rows: "rows = row # rows1"
    by (auto split: prod.splits option.splits)
  from Cons.IH [OF r] row d rows show ?case
    by (simp add: row_matches_def)
qed

lemma query_insert_order_Rows:
  "query_insert_order fault k now uid amt st db = (Rows rs, db') \<Longrightarrow>
     \<exists>row. rs = [row] \<and> orders db' = orders db @ [row] \<and> order_items db' = order_items db \<and>
       order_user_id row = uid \<and> order_total_amount row = amt \<and> order_status row = st"
  by (auto simp: query_insert_order_def Let_def split: if_splits)

lemma transaction_store:
  "transaction fault now uid its pd amt db = (r, tx, evs) \<Longrightarrow> ev \<in> set evs \<Longrightarrow> \<not> is_http ev"
  by (auto simp: transaction_def split: if_splits prod.splits query.splits list.splits option.splits
      dest: insert_items_store)

lemma transaction_commit:
  assumes "transaction fault now uid its pd amt db = (Some r, tx, evs)"
  shows "\<exists>order rows. r = order_created order rows \<and>
           orders tx = orders db @ [order] \<and> order_items tx = order_items db @ rows \<and>
           order_user_id order = uid \<and> order_total_amount order = amt \<and>
           order_status order = ''pending'' \<and>
           list_all2 (row_matches (order_id order) pd) its rows"
proof -
  from assms have nf: "\<not> fault 0"
    by (auto simp: transaction_def split: if_splits)
  from assms nf obtain order others tx1 where
    q: "query_insert_order fault 1 now uid amt ''pending'' db = (Rows (order # others), tx1)"
    by (auto simp: transaction_def split: prod.splits query.splits list.splits)
  from query_insert_order_Rows [OF q] have
    o: "orders tx1 = orders db @ [order]" "order_items tx1 = order_items db"
       "order_user_id order = uid" "order_total_amount order = amt" "order_status order = ''pending''"
    by auto
  from assms nf q obtain rows evs1 where
    i: "insert_items fault 2 now (order_id order) pd its tx1 = (Some rows, tx, evs1)"
    and r: "r = order_created order rows"
    by (auto simp: transaction_def split: prod.splits option.splits if_splits)
  from insert_items_rows [OF i] o r show ?thesis
    by auto
qed

lemma persist_order_store:
  "persist_order e uid its pd amt db = (r, db', evs) \<Longrightarrow> ev \<in> set evs \<Longrightarrow> \<not> is_http ev"
  by (auto simp: persist_order_def split: if_splits prod.splits option.splits
      dest: transaction_store)

lemma persist_order_trace:
  "persist_order e uid its pd amt db = (r, db', evs) \<Longrightarrow>
     \<exists>d. evs = Pool_connect # d \<and> (\<forall>ev \<in> set d. \<not> is_http ev)"
  by (auto simp: persist_order_def split: if_splits prod.splits option.splits
      dest: transaction_store)

lemma persist_order_cases:
  assumes "persist_order e uid its pd amt db = (r, db', evs)"
  shows "(\<exists>order rows. r = order_created order rows \<and>
           orders db' = orders db @ [order] \<and> order_items db' = order_items db @ rows \<and>
           order_user_id order = uid \<and> order_total_amount order = amt \<and>
           order_status order = ''pending'' \<and>
           list_all2 (row_matches (order_id order) pd) its rows)
       \<or> (r = internal_server_error \<and> orders db' = orders db \<and> order_items db' = order_items db)"
proof (cases "connect_fault e")
  case True
  with assms show ?thesis by (simp add: persist_order_def)
next
  case False
  obtain t tx tevs where t: "transaction (store_fault e) (clock e) uid its pd amt db = (t, tx, tevs)"
    by (cases "transaction (store_fault e) (clock e) uid its pd amt db") auto
  show ?thesis
  proof (cases t)
    case None
    with assms False t show ?thesis
      by (auto simp: persist_order_def rolled_back_def)
  next
    case (Some r')
    with assms False t have "r = r'" "db' = tx"
      by (simp_all add: persist_order_def)
    with transaction_commit [of "store_fault e" "clock e" uid its pd amt db r' tx tevs] t Some
    show ?thesis by simp
  qed
qed

subsection \<open>The handler\<close>

lemma create_order_outcome:
  assumes run: "create_order e body w = (r, w', evs)"
  shows "user_store w' = user_store w \<and> product_store w' = product_store w \<and>
         ((\<exists>v order rows.
            orderSchema_validate body = Inr v \<and> r = order_created order rows \<and>
            orders (order_store w') = orders (order_store w) @ [order] \<and>
            order_items (order_store w') = order_items (order_store w) @ rows \<and>
            order_user_id order = userId v \<and> order_status order = ''pending'' \<and>
            order_total_amount order = (\<Sum>item \<leftarrow> items v. line_amount (product_store w) item) \<and>
            list_all2 (line_snapshot (order_id order) (product_store w)) (items v) rows)
       \<or> ((fst r = 400 \<or> r = internal_server_error) \<and>
           orders (order_store w') = orders (order_store w) \<and>
           order_items (order_store w') = order_items (order_store w)))"
proof (cases "orderSchema_validate body")
  case (Inl err)
  with run show ?thesis by (auto simp: create_order_def)
next
  case (Inr v)
  obtain a udb where u: "axios_get_user e 0 (userId v) (user_store w) = (a, udb)"
    by (cases "axios_get_user e 0 (userId v) (user_store w)")
  with axios_get_user_frame [of e 0 "userId v" "user_store w"] have udb: "udb = user_store w"
    by simp
  show ?thesis
  proof (cases a)
    case (Rejected st)
    with run Inr u udb show ?thesis by (auto simp: create_order_def split: if_splits)
  next
    case (Resolved data)
    obtain vr pdb evs1 where
      vp: "verify_products e 1 (items v) Map.empty (product_store w) = (vr, pdb, evs1)"
      by (cases "verify_products e 1 (items v) Map.empty (product_store w)")
    from verify_products_frame [OF vp] have pdb: "pdb = product_store w" .
    show ?thesis
    proof (cases vr)
      case (Inl resp)
      with verify_products_Inl [of e 1 "items v" Map.empty "product_store w" resp pdb evs1] vp
      have "fst resp = 400 \<or> resp = internal_server_error" by simp
      with run \<open>orderSchema_validate body = Inr v\<close> u udb Resolved vp pdb Inl show ?thesis
        by (auto simp: create_order_def)
    next
      case (Inr pd)
      with verify_products_Inr [of e 1 "items v" Map.empty "product_store w" pd pdb evs1] vp
      have pd: "pd = (\<lambda>i. if i \<in> productId ` set (items v)
                            then map_option detail_of (select_product i (product_store w)) else None)"
        and found: "\<forall>item \<in> set (items v).
                      \<exists>p. select_product (productId item) (product_store w) = Some p \<and> quantity item \<le> Stock p"
        by auto
      have entry: "pd (productId item) = map_option detail_of (select_product (productId item) (product_store w))"
        if "item \<in> set (items v)" for item
        using that pd by auto
      have "\<forall>item \<in> set (items v). pd (productId item) \<noteq> None"
        using entry found by fastforce
      from reduce_total_sum [OF this, of 0]
      have total: "reduce_total pd 0 (items v)
                     = Some (\<Sum>item \<leftarrow> items v. d_price (the (pd (productId item))) * of_int (quantity item))"
        by simp
      have "map (\<lambda>item. d_price (the (pd (productId item))) * of_int (quantity item)) (items v)
              = map (line_amount (product_store w)) (items v)"
        using entry found by (fastforce simp: line_amount_def detail_of_def)
      with total have total': "reduce_total pd 0 (items v)
            = Some (\<Sum>item \<leftarrow> items v. line_amount (product_store w) item)"
        by simp
      obtain pr odb evs2 where
        po: "persist_order e (userId v) (items v) pd
               (\<Sum>item \<leftarrow> items v. line_amount (product_store w) item) (order_store w) = (pr, odb, evs2)"
        by (cases "persist_order e (userId v) (items v) pd
               (\<Sum>item \<leftarrow> items v. line_amount (product_store w) item) (order_store w)")
      from run \<open>orderSchema_validate body = Inr v\<close> u Resolved vp Inr total' po
      have res: "r = pr" "order_store w' = odb" "user_store w' = udb" "product_store w' = pdb"
        by (auto simp: create_order_def)
      from persist_order_cases [OF po]
      show ?thesis
      proof
        assume "\<exists>order rows. pr = order_created order rows \<and>
           orders odb = orders (order_store w) @ [order] \<and>
           order_items odb = order_items (order_store w) @ rows \<and>
           order_user_id order = userId v \<and>
           order_total_amount order = (\<Sum>item \<leftarrow> items v. line_amount (product_store w) item) \<and>
           order_status order = ''pending'' \<and>
           list_all2 (row_matches (order_id order) pd) (items v) rows"
        then obtain order rows where
          o: "pr = order_created order rows"
             "orders odb = orders (order_store w) @ [order]"
             "order_items odb = order_items (order_store w) @ rows"
             "order_user_id order = userId v"
             "order_total_amount order = (\<Sum>item \<leftarrow> items v. line_amount (product_store w) item)"
             "order_status order = ''pending''"
          and rm: "list_all2 (row_matches (order_id order) pd) (items v) rows"
          by blast
        have "list_all2 (line_snapshot (order_id order) (product_store w)) (items v) rows"
          using rm
        proof (rule list.rel_mono_strong)
          fix item row
          assume "row_matches (order_id order) pd item row" "item \<in> set (items v)"
          with entry [of item] show "line_snapshot (order_id order) (product_store w) item row"
            by (auto simp: row_matches_def line_snapshot_def detail_of_def split: option.splits)
        qed
        with o res udb pdb \<open>orderSchema_validate body = Inr v\<close> show ?thesis
          by auto
      next
        assume "pr = internal_server_error \<and> orders odb = orders (order_store w) \<and>
                order_items odb = order_items (order_store w)"
        with res udb pdb show ?thesis by simp
      qed
    qed
  qed
qed

lemma create_order_trace:
  assumes run: "create_order e body w = (r, w', evs)"
  shows "(\<exists>v d. orderSchema_validate body = Inr v \<and>
             evs = Http_get_user (userId v) # map (\<lambda>item. Http_get_product (productId item)) (items v)
                     @ Pool_connect # d \<and>
             (\<forall>ev \<in> set d. \<not> is_http ev))
         \<or> (\<forall>ev \<in> set evs. is_http ev)"
proof (cases "orderSchema_validate body")
  case (Inl err)
  with run show ?thesis by (auto simp: create_order_def)
next
  case (Inr v)
  obtain a udb where u: "axios_get_user e 0 (userId v) (user_store w) = (a, udb)"
    by (cases "axios_get_user e 0 (userId v) (user_store w)")
  show ?thesis
  proof (cases a)
    case (Rejected st)
    with run Inr u show ?thesis by (auto simp: create_order_def)
  next
    case (Resolved data)
    obtain vr pdb evs1 where
      vp: "verify_products e 1 (items v) Map.empty (product_store w) = (vr, pdb, evs1)"
      by (cases "verify_products e 1 (items v) Map.empty (product_store w)")
    show ?thesis
    proof (cases vr)
      case (Inl resp)
      from verify_products_http [OF vp] have "\<forall>ev \<in> set evs1. is_http ev" .
      with run \<open>orderSchema_validate body = Inr v\<close> u Resolved vp Inl show ?thesis
        by (auto simp: create_order_def)
    next
      case (Inr pd)
      from verify_products_trace [OF vp [unfolded Inr]]
      have evs1: "evs1 = map (\<lambda>item. Http_get_product (productId item)) (items v)" .
      show ?thesis
      proof (cases "reduce_total pd 0 (items v)")
        case None
        with run \<open>orderSchema_validate body = Inr v\<close> u Resolved vp Inr evs1 show ?thesis
          by (auto simp: create_order_def)
      next
        case (Some amt)
        obtain pr odb evs2 where
          po: "persist_order e (userId v) (items v) pd amt (order_store w) = (pr, odb, evs2)"
          by (cases "persist_order e (userId v) (items v) pd amt (order_store w)")
        from persist_order_trace [OF po] obtain d where
          d: "evs2 = Pool_connect # d" "\<forall>ev \<in> set d. \<not> is_http ev"
          by blast
        from run \<open>orderSchema_validate body = Inr v\<close> u Resolved vp Inr Some po
        have "evs = Http_get_user (userId v) # evs1 @ evs2"
          by (auto simp: create_order_def)
        with evs1 d \<open>orderSchema_validate body = Inr v\<close> show ?thesis
          by auto
      qed
    qed
  qed
qed

lemma http_prefix_then_store:
  assumes "evs = h @ d" "\<forall>ev \<in> set h. is_http ev" "\<forall>ev \<in> set d. \<not> is_http ev"
    and "evs = pre @ ev # post" "\<not> is_http ev"
  shows "\<forall>ev' \<in> set post. \<not> is_http ev'"
proof -
  from assms have "h @ d = pre @ ev # post" by simp
  then obtain us where "(h = pre @ us \<and> us @ d = ev # post) \<or> (h @ us = pre \<and> d = us @ ev # post)"
    by (auto simp: append_eq_append_conv2)
  then show ?thesis
  proof
    assume a: "h = pre @ us \<and> us @ d = ev # post"
    show ?thesis
    proof (cases us)
      case Nil
      with a assms(3) show ?thesis by auto
    next
      case (Cons x xs)
      with a have "ev \<in> set h" by auto
      with assms(2,5) show ?thesis by blast
    qed
  next
    assume "h @ us = pre \<and> d = us @ ev # post"
    with assms(3) show ?thesis by auto
  qed
qed





subsection \<open>Runs on the sample data\<close>

lemma sample_run:
  "create_order calm (order_body 1 [(1, 2), (5, 3)]) sample_world
     = (order_created sample_order sample_rows, sample_world_after, sample_events)"
  by code_simp

lemma sample_run_refused:
  "create_order item_insert_refused (order_body 1 [(1, 2), (5, 3)]) sample_world
     = (internal_server_error,
        sample_world \<lparr> order_store :=
          \<lparr> orders = [], order_items = [], orders_id_seq = 2, order_items_id_seq = 2 \<rparr> \<rparr>,
        [Http_get_user 1, Http_get_product 1, Http_get_product 5, Pool_connect,
         Client_query BEGIN, Client_query INSERT_order, Client_query INSERT_item,
         Client_query INSERT_item, Client_query ROLLBACK, Client_release])"
  by code_simp



lemma validate_sample: 
  "orderSchema_validate (order_body 2 [(1, 2)]) = Inr \<lparr> userId = 2, items = [\<lparr> productId = 1, quantity = 2 \<rparr>] \<rparr>"
  by code_simp

lemma lookup_missing_user:
  "fst (axios_get_user calm 0 2 (user_store sample_world)) = Rejected (Some 404)"
  by code_simp

lemma lookup_user_away:
  "fst (axios_get_user user_service_away 0 2 (user_store sample_world)) = Rejected None"
  by code_simp

lemma validate_short: "orderSchema_validate (order_body 1 [(5, 3), (1, 50)]) = Inr short_order"
  by code_simp

lemma short_items:
  "items short_order = [\<lparr> productId = 5, quantity = 3 \<rparr>] @ \<lparr> productId = 1, quantity = 50 \<rparr> # []"
  by (simp add: short_order_def)

lemma laptop_selected:
  "select_product (productId \<lparr> productId = 1, quantity = 50 \<rparr>) (product_store sample_world) = Some laptop"
  by code_simp

lemma laptop_short: "Stock laptop < quantity \<lparr> productId = 1, quantity = 50 \<rparr>"
  by code_simp

lemma calm_checks:
  "resolved (fst (axios_get_user calm 0 (userId short_order) (user_store sample_world)))"
  "passes_check calm (product_store sample_world) (Suc 0) \<lparr> productId = 5, quantity = 3 \<rparr>"
  "\<not> net_fault calm (Suc (Suc 0))" "\<not> peer_fault calm (Suc (Suc 0)) 0"
  by code_simp+

lemma short_message:
  "insufficient_stock laptop \<lparr> productId = 1, quantity = 50 \<rparr>
     = ''Insufficient stock for product Laptop. Available: 10, Requested: 50''"
  by code_simp

subsection \<open>The claims\<close>

text \<open>
  C2. Creating an order is all or nothing. Either the reply is 201 and the order store
  has gained the order row and one item row per line item, in the order of the request, or
  the reply is 400 or 500 and the order store holds the rows it held before: a statement
  refused after \<open>BEGIN\<close>, or a row that fails a \<open>CHECK\<close>, ends in \<open>ROLLBACK\<close>.
\<close>

theorem create_order_all_or_nothing:
  assumes "create_order e body w = (r, w', evs)"
  shows "(fst r = 201 \<and>
          (\<exists>v order rows.
             orderSchema_validate body = Inr v \<and>
             orders (order_store w') = orders (order_store w) @ [order] \<and>
             order_items (order_store w') = order_items (order_store w) @ rows \<and>
             length rows = length (items v) \<and>
             list_all2 (line_snapshot (order_id order) (product_store w)) (items v) rows))
       \<or> (fst r \<in> {400, 500} \<and>
           orders (order_store w') = orders (order_store w) \<and>
           order_items (order_store w') = order_items (order_store w))"
proof -
  from create_order_outcome [OF assms]
  consider
    (created) v order rows where
      "orderSchema_validate body = Inr v" "r = order_created order rows"
      "orders (order_store w') = orders (order_store w) @ [order]"
      "order_items (order_store w') = order_items (order_store w) @ rows"
      "list_all2 (line_snapshot (order_id order) (product_store w)) (items v) rows"
  | (failed) "fst r = 400 \<or> r = internal_server_error"
      "orders (order_store w') = orders (order_store w)"
      "order_items (order_store w') = order_items (order_store w)"
    by blast
  then show ?thesis
  proof cases
    case created
    from created(5) have "length rows = length (items v)"
      by (simp add: list_all2_lengthD)
    with created show ?thesis
      by (auto simp: order_created_def)
  next
    case failed
    then show ?thesis
      by (auto simp: internal_server_error_def)
  qed
qed

theorem create_order_all_or_nothing_witness:
  "create_order calm (order_body 1 [(1, 2), (5, 3)]) sample_world
     = (order_created sample_order sample_rows, sample_world_after, sample_events)
   \<and> fst (order_created sample_order sample_rows) = 201
   \<and> orders (order_store sample_world_after) = orders (order_store sample_world) @ [sample_order]
   \<and> order_items (order_store sample_world_after) = order_items (order_store sample_world) @ sample_rows
   \<and> length sample_rows = 2
   \<and> fst (fst (create_order item_insert_refused (order_body 1 [(1, 2), (5, 3)]) sample_world)) = 500
   \<and> orders (order_store (fst (snd (create_order item_insert_refused (order_body 1 [(1, 2), (5, 3)])
          sample_world)))) = []
   \<and> order_items (order_store (fst (snd (create_order item_insert_refused (order_body 1 [(1, 2), (5, 3)])
          sample_world)))) = []"
  using create_order_all_or_nothing [OF sample_run] create_order_all_or_nothing [OF sample_run_refused]
    sample_run sample_run_refused
  by (simp add: order_created_def sample_world_after_def sample_world_def sample_rows_def
      internal_server_error_def)



text \<open>
  C4. The claim says that a request with an item whose quantity exceeds the stock of its
  product is answered with the insufficient-stock error. The items are checked one after
  the other and the first failure ends the request: with a product that does not exist
  ahead of the short item, the reply names the missing product.
\<close>

theorem create_order_insufficient_stock_counterexample:
  "orderSchema_validate (order_body 1 [(999, 1), (1, 50)])
     = Inr \<lparr> userId = 1, items = [\<lparr> productId = 999, quantity = 1 \<rparr>, \<lparr> productId = 1, quantity = 50 \<rparr>] \<rparr>
   \<and> select_product 1 (product_store sample_world) = Some laptop
   \<and> Stock laptop < 50
   \<and> fst (create_order calm (order_body 1 [(999, 1), (1, 50)]) sample_world)
       = (400, error_body ''Product with ID 999 not found'')
   \<and> fst (create_order calm (order_body 1 [(999, 1), (1, 50)]) sample_world)
       \<noteq> (400, error_body (insufficient_stock laptop \<lparr> productId = 1, quantity = 50 \<rparr>))"
  by code_simp

text \<open>
  C4, as amended. A valid request with an item whose quantity exceeds the stock of its
  product is answered 400 or 500 and leaves every store as it was. The reply is the 400
  that names the product, its stock and the quantity asked for when the user lookup
  resolves, every item ahead of the short one passes its check (its lookup is answered and
  finds the product with enough stock), and the lookup of the short item is answered: no
  failure of the network and none inside the product service.
\<close>

theorem create_order_insufficient_stock:
  assumes "orderSchema_validate body = Inr v"
    and "items v = pre @ item # post"
    and "select_product (productId item) (product_store w) = Some p"
    and "Stock p < quantity item"
  shows "fst (fst (create_order e body w)) \<in> {400, 500}
       \<and> fst (snd (create_order e body w)) = w
       \<and> (resolved (fst (axios_get_user e 0 (userId v) (user_store w))) \<and>
          (\<forall>n < length pre. passes_check e (product_store w) (Suc n) (pre ! n)) \<and>
          \<not> net_fault e (Suc (length pre)) \<and> \<not> peer_fault e (Suc (length pre)) 0
          \<longrightarrow> fst (create_order e body w) = (400, error_body (insufficient_stock p item)))"
proof -
  obtain a udb where u: "axios_get_user e 0 (userId v) (user_store w) = (a, udb)"
    by (cases "axios_get_user e 0 (userId v) (user_store w)")
  with axios_get_user_frame [of e 0 "userId v" "user_store w"] have udb: "udb = user_store w"
    by simp
  obtain vr pdb evs1 where
    vp: "verify_products e 1 (items v) Map.empty (product_store w) = (vr, pdb, evs1)"
    by (cases "verify_products e 1 (items v) Map.empty (product_store w)")
  from verify_products_frame [OF vp] have pdb: "pdb = product_store w" .
  from assms(2) have "item \<in> set (items v)" by simp
  from verify_products_short_item [OF this assms(3,4), of e 1 Map.empty] vp
  obtain resp where resp: "vr = Inl resp" by auto
  from verify_products_Inl [OF vp [unfolded resp]]
  have status: "fst resp = 400 \<or> resp = internal_server_error" .
  show ?thesis
  proof (cases a)
    case (Rejected st)
    with assms(1) u udb show ?thesis
      by (simp add: create_order_def internal_server_error_def resolved_def)
  next
    case (Resolved data)
    with assms(1) u udb vp pdb resp have run: "create_order e body w = (resp, w, Http_get_user (userId v) # evs1)"
      by (simp add: create_order_def)
    have "resp = (400, error_body (insufficient_stock p item))"
      if "\<forall>n < length pre. passes_check e (product_store w) (Suc n) (pre ! n)"
        and "\<not> net_fault e (Suc (length pre))" "\<not> peer_fault e (Suc (length pre)) 0"
      using verify_products_first_short [of pre e "product_store w" 1 item p post Map.empty]
        that assms(2,3,4) vp resp
      by simp
    with run status show ?thesis
      by (auto simp: internal_server_error_def)
  qed
qed

theorem create_order_insufficient_stock_witness:
  "fst (create_order calm (order_body 1 [(5, 3), (1, 50)]) sample_world)
     = (400, error_body ''Insufficient stock for product Laptop. Available: 10, Requested: 50'')
   \<and> fst (snd (create_order calm (order_body 1 [(5, 3), (1, 50)]) sample_world)) = sample_world"
  using create_order_insufficient_stock [OF validate_short short_items laptop_selected laptop_short,
      where e = calm]
    calm_checks short_message
  by simp

text \<open>
  C5. On a valid request whose user lookup is rejected: with status 404 the reply is
  400 \<open>User not found\<close>; with any other status, or with no answer at all, the reply is
  the 500 that every unexpected failure gets. The stores are left as they were.
\<close>

theorem create_order_user_lookup_failure:
  assumes "orderSchema_validate body = Inr v"
    and "fst (axios_get_user e 0 (userId v) (user_store w)) = Rejected st"
  shows "(st = Some 404 \<longrightarrow> fst (create_order e body w) = (400, error_body ''User not found''))
       \<and> (st \<noteq> Some 404 \<longrightarrow> fst (create_order e body w) = (500, error_body ''Internal server error''))
       \<and> fst (snd (create_order e body w)) = w"
proof -
  obtain udb where u: "axios_get_user e 0 (userId v) (user_store w) = (Rejected st, udb)"
    using assms(2) by (cases "axios_get_user e 0 (userId v) (user_store w)") auto
  with axios_get_user_frame [of e 0 "userId v" "user_store w"] have "udb = user_store w"
    by simp
  with assms(1) u show ?thesis
    by (simp add: create_order_def internal_server_error_def)
qed

theorem create_order_user_lookup_failure_witness:
  "fst (create_order calm (order_body 2 [(1, 2)]) sample_world) = (400, error_body ''User not found'')
   \<and> fst (create_order user_service_away (order_body 2 [(1, 2)]) sample_world)
       = (500, error_body ''Internal server error'')"
  using create_order_user_lookup_failure [OF validate_sample, of calm sample_world "Some 404"]
    create_order_user_lookup_failure [OF validate_sample, of user_service_away sample_world None]
    lookup_missing_user lookup_user_away
  by simp

text \<open>
  C6. Whatever the request and its outcome, the product store after creating an order is
  the product store before; in particular the stock of every product is what it was.
\<close>

theorem create_order_leaves_products:
  assumes "create_order e body w = (r, w', evs)"
  shows "product_store w' = product_store w
       \<and> (\<forall>i. map_option Stock (select_product i (product_store w'))
                = map_option Stock (select_product i (product_store w)))"
  using create_order_outcome [OF assms] by simp

theorem create_order_leaves_products_witness:
  "product_store sample_world_after = product_store sample_world
   \<and> map (\<lambda>i. map_option Stock (select_product i (product_store sample_world_after))) [1, 5]
       = [Some 10, Some 50]"
  using create_order_leaves_products [OF sample_run]
  by (simp add: sample_world_def select_product_def laptop_def mouse_def)

text \<open>
  C7. A run that reaches the store has made the user lookup and the lookup of every item
  first, then acquired the connection, and makes no outbound call from there on; any other
  run makes outbound calls only. In every run, no outbound call follows an event of the
  store.
\<close>

theorem create_order_lookups_before_transaction:
  assumes "create_order e body w = (r, w', evs)"
  shows "((\<exists>v d. orderSchema_validate body = Inr v \<and>
             evs = Http_get_user (userId v) # map (\<lambda>item. Http_get_product (productId item)) (items v)
                     @ Pool_connect # d \<and>
             (\<forall>ev \<in> set d. \<not> is_http ev))
          \<or> (\<forall>ev \<in> set evs. is_http ev))
       \<and> (\<forall>pre ev post. evs = pre @ ev # post \<and> \<not> is_http ev \<longrightarrow> (\<forall>ev' \<in> set post. \<not> is_http ev'))"
proof -
  note t = create_order_trace [OF assms]
  have "\<forall>ev' \<in> set post. \<not> is_http ev'" if "evs = pre @ ev # post" "\<not> is_http ev" for pre ev post
    using t
  proof
    assume "\<exists>v d. orderSchema_validate body = Inr v \<and>
             evs = Http_get_user (userId v) # map (\<lambda>item. Http_get_product (productId item)) (items v)
                     @ Pool_connect # d \<and>
             (\<forall>ev \<in> set d. \<not> is_http ev)"
    then obtain v where "\<exists>d. orderSchema_validate body = Inr v \<and>
             evs = Http_get_user (userId v) # map (\<lambda>item. Http_get_product (productId item)) (items v)
                     @ Pool_connect # d \<and>
             (\<forall>ev \<in> set d. \<not> is_http ev)" ..
    then obtain d where vd: "orderSchema_validate body = Inr v \<and>
             evs = Http_get_user (userId v) # map (\<lambda>item. Http_get_product (productId item)) (items v)
                     @ Pool_connect # d \<and>
             (\<forall>ev \<in> set d. \<not> is_http ev)" ..
    then have
      evs0: "evs = Http_get_user (userId v) # map (\<lambda>item. Http_get_product (productId item)) (items v)
                     @ Pool_connect # d"
      and d: "\<forall>ev \<in> set d. \<not> is_http ev"
      by simp_all
    from evs0 have
      evs: "evs = (Http_get_user (userId v) # map (\<lambda>item. Http_get_product (productId item)) (items v))
                     @ (Pool_connect # d)"
      by simp
    show ?thesis
    proof (rule http_prefix_then_store [OF evs _ _ that])
      show "\<forall>ev \<in> set (Http_get_user (userId v) # map (\<lambda>item. Http_get_product (productId item)) (items v)). is_http ev"
        by auto
      show "\<forall>ev \<in> set (Pool_connect # d). \<not> is_http ev"
        using d by auto
    qed
  next
    assume "\<forall>ev \<in> set evs. is_http ev"
    with that show ?thesis by auto
  qed
  with t show ?thesis by blast
qed

theorem create_order_lookups_before_transaction_witness:
  "sample_events = [Http_get_user 1, Http_get_product 1, Http_get_product 5] @
       Pool_connect # [Client_query BEGIN, Client_query INSERT_order, Client_query INSERT_item,
                       Client_query INSERT_item, Client_query COMMIT, Client_release]
   \<and> list_all is_http [Http_get_user 1, Http_get_product 1, Http_get_product 5]
   \<and> \<not> list_ex is_http [Client_query BEGIN, Client_query INSERT_order, Client_query INSERT_item,
                       Client_query INSERT_item, Client_query COMMIT, Client_release]"
  using create_order_lookups_before_transaction [OF sample_run]
  by (simp add: sample_events_def)

section \<open>Deleting what is not there\<close>

text \<open>
  C9. The claim says that every delete request naming an identifier without a row is
  answered not-found. The handlers answer 500 when the store refuses the statement, and it
  refuses an identifier beyond \<open>INTEGER\<close>: \<open>DELETE /api/users/3000000000\<close> names no
  row and is answered 500.
\<close>

theorem delete_missing_counterexample:
  "3000000000 \<notin> user_id ` set (users (user_store sample_world))
   \<and> integer_column_faults 3000000000 0
   \<and> delete_user (integer_column_faults 3000000000) 3000000000 (user_store sample_world)
       = ((500, error_body ''Internal server error''), user_store sample_world)"
  by code_simp

text \<open>
  C9, as amended. A delete request naming an identifier without a row is never answered
  with success. The user service and the product service answer 404 not-found when the
  store carries out the statement and 500 when it refuses it; either way the store is
  unchanged. The order service registers no \<open>DELETE\<close> route: every such request
  reaches the catch-all handler, which answers 404 \<open>Route not found\<close>.
\<close>

theorem delete_missing_is_not_success:
  "(i \<notin> user_id ` set (users udb) \<longrightarrow>
      delete_user fault i udb
        = (if fault 0 then (500, error_body ''Internal server error'')
           else (404, error_body ''User not found''), udb))
   \<and> (i \<notin> ID ` set (products pdb) \<longrightarrow>
      deleteProduct fault i pdb
        = (if fault 0 then (500, H_error ''Failed to delete product'')
           else (404, H_error ''Product not found''), pdb))
   \<and> order_service e DELETE path body w = ((404, error_body ''Route not found''), w)"
proof (intro conjI impI)
  assume a: "i \<notin> user_id ` set (users udb)"
  then have "filter (\<lambda>u. user_id u = i) (users udb) = []"
      "filter (\<lambda>u. user_id u \<noteq> i) (users udb) = users udb"
    by (auto simp: filter_empty_conv filter_id_conv)
  then show "delete_user fault i udb
        = (if fault 0 then (500, error_body ''Internal server error'')
           else (404, error_body ''User not found''), udb)"
    by (simp add: delete_user_def query_delete_user_def internal_server_error_def)
next
  assume a: "i \<notin> ID ` set (products pdb)"
  then have "filter (\<lambda>p. ID p = i) (products pdb) = []"
      "filter (\<lambda>p. ID p \<noteq> i) (products pdb) = products pdb"
    by (auto simp: filter_empty_conv filter_id_conv)
  then show "deleteProduct fault i pdb
        = (if fault 0 then (500, H_error ''Failed to delete product'')
           else (404, H_error ''Product not found''), pdb)"
    by (simp add: deleteProduct_def exec_delete_product_def)
next
  show "order_service e DELETE path body w = ((404, error_body ''Route not found''), w)"
    by (cases path) simp_all
qed

lemma sample_absent:
  "999 \<notin> user_id ` set (users (user_store sample_world))"
  "999 \<notin> ID ` set (products (product_store sample_world))"
  "3000000000 \<notin> user_id ` set (users (user_store sample_world))"
  "3000000000 \<notin> ID ` set (products (product_store sample_world))"
  "\<not> integer_column_faults 999 0" "integer_column_faults 3000000000 0"
  by code_simp+

theorem delete_missing_is_not_success_witness:
  "delete_user (integer_column_faults 999) 999 (user_store sample_world)
     = ((404, error_body ''User not found''), user_store sample_world)
   \<and> deleteProduct (integer_column_faults 999) 999 (product_store sample_world)
     = ((404, H_error ''Product not found''), product_store sample_world)
   \<and> delete_user (integer_column_faults 3000000000) 3000000000 (user_store sample_world)
     = ((500, error_body ''Internal server error''), user_store sample_world)
   \<and> deleteProduct (integer_column_faults 3000000000) 3000000000 (product_store sample_world)
     = ((500, H_error ''Failed to delete product''), product_store sample_world)
   \<and> order_service calm DELETE (Path_order 999) JNull sample_world
     = ((404, error_body ''Route not found''), sample_world)"
  using delete_missing_is_not_success
      [where i = 999 and fault = "integer_column_faults 999" and udb = "user_store sample_world"
         and pdb = "product_store sample_world" and e = calm and path = "Path_order 999"
         and body = JNull and w = sample_world]
    delete_missing_is_not_success
      [where i = 3000000000 and fault = "integer_column_faults 3000000000"
         and udb = "user_store sample_world" and pdb = "product_store sample_world"]
    sample_absent
  by simp

end
